theory Spec2Isabelle
  imports Main "HOL-Library.Sublist"
begin

section \<open>Values of the Python runtime\<close>

text \<open>
  An environment variable read by \<^verbatim>\<open>os.getenv\<close> is \<open>None\<close> or a string. Python treats
  \<open>None\<close> and the empty string as false in \<^verbatim>\<open>if not x\<close>.
  Strings are lists of 8-bit characters; digits outside ASCII are not part of the model.
\<close>

definition truthy :: "string option \<Rightarrow> bool" where
  "truthy v = (case v of None \<Rightarrow> False | Some s \<Rightarrow> s \<noteq> [])"

type_synonym environ = "string \<rightharpoonup> string"

definition getenv :: "environ \<Rightarrow> string \<Rightarrow> string option" where
  "getenv env k = env k"

definition getenv_default :: "environ \<Rightarrow> string \<Rightarrow> string \<Rightarrow> string" where
  "getenv_default env k d = (case env k of None \<Rightarrow> d | Some v \<Rightarrow> v)"

subsection \<open>Naive datetimes\<close>

text \<open>
  A naive \<^verbatim>\<open>datetime\<close> is a count of microseconds since 0001-01-01 00:00:00; its date is
  the day number, its hour and minute are read off the count. Python's upper bound
  (year 9999) is not modelled: clock readings are far below it.
\<close>

type_synonym datetime = nat

definition dt_date :: "datetime \<Rightarrow> nat" where
  "dt_date t = t div 86400000000"

definition dt_hour :: "datetime \<Rightarrow> nat" where
  "dt_hour t = (t div 3600000000) mod 24"

definition dt_minute :: "datetime \<Rightarrow> nat" where
  "dt_minute t = (t div 60000000) mod 60"

text \<open>\<^verbatim>\<open>datetime(1900, 1, 1, h, m)\<close>: day 693595 after 0001-01-01.\<close>

definition datetime_1900 :: "nat \<Rightarrow> nat \<Rightarrow> datetime" where
  "datetime_1900 h m = 693595 * 86400000000 + h * 3600000000 + m * 60000000"

text \<open>\<^verbatim>\<open>timedelta(hours=7, minutes=30)\<close> in microseconds.\<close>

definition jwt_lifetime :: nat where
  "jwt_lifetime = 27000000000"

subsection \<open>Digits\<close>

definition is_digit :: "char \<Rightarrow> bool" where
  "is_digit c = (c \<in> set ''0123456789'')"

definition digit_val :: "char \<Rightarrow> nat" where
  "digit_val c = of_char c - 48"

subsection \<open>\<^verbatim>\<open>datetime.strptime(s, '%H:%M')\<close>\<close>

text \<open>
  The library compiles the format to the regular expression
  \<^verbatim>\<open>(?P<H>2[0-3]|[0-1]\d|\d):(?P<M>[0-5]\d|\d)\<close>, matches it at the start of the string
  (alternatives tried in order, with backtracking), and then raises \<^verbatim>\<open>ValueError\<close> when
  text is left over. Each function below returns the matches of one alternative: the value
  read and the text left.
\<close>

definition match_2_03 :: "string \<Rightarrow> (nat \<times> string) list" where
  "match_2_03 s = (case s of
      a # b # r \<Rightarrow> if a = CHR ''2'' \<and> b \<in> set ''0123'' then [(20 + digit_val b, r)] else []
    | _ \<Rightarrow> [])"

definition match_01_d :: "string \<Rightarrow> (nat \<times> string) list" where
  "match_01_d s = (case s of
      a # b # r \<Rightarrow> if a \<in> set ''01'' \<and> is_digit b then [(10 * digit_val a + digit_val b, r)] else []
    | _ \<Rightarrow> [])"

definition match_05_d :: "string \<Rightarrow> (nat \<times> string) list" where
  "match_05_d s = (case s of
      a # b # r \<Rightarrow> if a \<in> set ''012345'' \<and> is_digit b then [(10 * digit_val a + digit_val b, r)] else []
    | _ \<Rightarrow> [])"

definition match_d :: "string \<Rightarrow> (nat \<times> string) list" where
  "match_d s = (case s of a # r \<Rightarrow> if is_digit a then [(digit_val a, r)] else [] | [] \<Rightarrow> [])"

definition match_minute :: "string \<Rightarrow> (nat \<times> string) option" where
  "match_minute s = (case match_05_d s @ match_d s of [] \<Rightarrow> None | x # _ \<Rightarrow> Some x)"

definition after_hour :: "nat \<times> string \<Rightarrow> (nat \<times> nat \<times> string) option" where
  "after_hour p = (case snd p of
      c # r \<Rightarrow> if c = CHR '':'' then map_option (\<lambda>(m, rest). (fst p, m, rest)) (match_minute r) else None
    | [] \<Rightarrow> None)"

definition regex_HM :: "string \<Rightarrow> (nat \<times> nat \<times> string) option" where
  "regex_HM s = (case List.map_filter after_hour (match_2_03 s @ match_01_d s @ match_d s) of
      [] \<Rightarrow> None | x # _ \<Rightarrow> Some x)"

definition strptime_HM :: "string \<Rightarrow> datetime option" where
  "strptime_HM s = (case regex_HM s of
      None \<Rightarrow> None
    | Some (h, m, rest) \<Rightarrow> if rest = [] then Some (datetime_1900 h m) else None)"

subsection \<open>\<^verbatim>\<open>int(s)\<close>\<close>

text \<open>
  \<^verbatim>\<open>int\<close> of a string: surrounding whitespace is dropped, then an optional sign, then
  decimal digits, where single underscores may stand between digits. The interpreter's
  optional limit on the number of digits is not modelled.
\<close>

definition is_space :: "char \<Rightarrow> bool" where
  "is_space c = (let n = (of_char c :: nat) in (9 \<le> n \<and> n \<le> 13) \<or> (28 \<le> n \<and> n \<le> 32))"

definition strip :: "string \<Rightarrow> string" where
  "strip s = rev (dropWhile is_space (rev (dropWhile is_space s)))"

fun parse_digits :: "nat \<Rightarrow> string \<Rightarrow> nat option" where
  "parse_digits acc [] = Some acc"
| "parse_digits acc (c # cs) =
     (if is_digit c then parse_digits (10 * acc + digit_val c) cs
      else if c = CHR ''_'' then
        (case cs of
           d # ds \<Rightarrow> if is_digit d then parse_digits (10 * acc + digit_val d) ds else None
         | [] \<Rightarrow> None)
      else None)"

definition parse_nat :: "string \<Rightarrow> nat option" where
  "parse_nat s = (case s of
      c # cs \<Rightarrow> if is_digit c then parse_digits (digit_val c) cs else None
    | [] \<Rightarrow> None)"

definition py_int :: "string \<Rightarrow> int option" where
  "py_int s = (let t = strip s in
     case t of
       [] \<Rightarrow> None
     | c # cs \<Rightarrow>
         if c = CHR ''-'' then map_option (\<lambda>n. - int n) (parse_nat cs)
         else if c = CHR ''+'' then map_option int (parse_nat cs)
         else map_option int (parse_nat t))"

subsection \<open>\<^verbatim>\<open>str.rstrip('/')\<close>\<close>

definition rstrip_slash :: "string \<Rightarrow> string" where
  "rstrip_slash s = rev (dropWhile (\<lambda>c. c = CHR ''/'') (rev s))"

section \<open>The outside world\<close>

text \<open>
  The program reads the wall clock, sends HTTP requests and sleeps. The world answers:
  \<open>clock w k\<close> is what the \<open>k\<close>-th call of \<^verbatim>\<open>datetime.now()\<close> returns, \<open>net w k\<close> is the outcome
  of the \<open>k\<close>-th request (an exception, or the decoded JSON body of a successful response),
  and \<open>interrupted w k\<close> tells whether SIGINT arrives during the \<open>k\<close>-th sleep. The world
  records the requests sent, oldest first.
\<close>

datatype error =
    UrlRequired            \<comment> \<open>\<^verbatim>\<open>ValueError\<close>, line 133\<close>
  | CredentialsRequired    \<comment> \<open>\<^verbatim>\<open>ValueError\<close>, line 136\<close>
  | ContainerNameRequired  \<comment> \<open>\<^verbatim>\<open>ValueError\<close>, line 142\<close>
  | BadRestartTime string  \<comment> \<open>\<^verbatim>\<open>ValueError\<close>, line 148\<close>
  | IntValueError          \<comment> \<open>\<^verbatim>\<open>ValueError\<close> of \<^verbatim>\<open>int()\<close>, line 116\<close>
  | StrptimeValueError     \<comment> \<open>\<^verbatim>\<open>ValueError\<close> of \<^verbatim>\<open>strptime\<close>, lines 155 and 205\<close>
  | AuthCredentialsMissing \<comment> \<open>\<^verbatim>\<open>ValueError\<close>, line 46\<close>
  | ContainerNotFound string \<comment> \<open>\<^verbatim>\<open>ValueError\<close>, line 85\<close>
  | RequestFailed          \<comment> \<open>any \<^verbatim>\<open>Exception\<close> of the request, its status check or its body\<close>
  | TypeError              \<comment> \<open>a datetime compared with \<open>None\<close>, line 38; \<^verbatim>\<open>in None\<close>, line 79\<close>
  | SleepValueError        \<comment> \<open>\<^verbatim>\<open>ValueError\<close> of \<^verbatim>\<open>time.sleep\<close> on a negative length\<close>
  | KeyboardInterrupt

text \<open>\<^verbatim>\<open>KeyboardInterrupt\<close> derives from \<^verbatim>\<open>BaseException\<close>; \<^verbatim>\<open>except Exception\<close> lets it pass.\<close>

definition is_Exception :: "error \<Rightarrow> bool" where
  "is_Exception e = (e \<noteq> KeyboardInterrupt)"

text \<open>
  A container of the listing is a JSON object. Its \<open>Names\<close> key may be missing, may hold
  \<^verbatim>\<open>null\<close>, or may hold a list of names; its \<open>Id\<close> is a string.
\<close>

datatype json_names = Names_absent | Names_null | Names_list "string list"

record container =
  c_Id :: string
  c_Names :: json_names

datatype body =
    JwtBody string
  | ContainerList "container list"
  | OtherBody

type_synonym headers = "(string \<times> string) list"

datatype request =
    Post_auth string "string option" "string option"
  | Get_containers string headers
  | Post_restart string headers

record world =
  clock :: "nat \<Rightarrow> datetime"
  reads :: nat
  net :: "nat \<Rightarrow> error + body"
  sent :: "request list"
  interrupted :: "nat \<Rightarrow> bool"
  sleeps :: nat

definition now :: "world \<Rightarrow> datetime \<times> world" where
  "now w = (clock w (reads w), w\<lparr>reads := Suc (reads w)\<rparr>)"

definition http :: "request \<Rightarrow> world \<Rightarrow> (error + body) \<times> world" where
  "http rq w = (net w (length (sent w)), w\<lparr>sent := sent w @ [rq]\<rparr>)"

definition sleep :: "int \<Rightarrow> world \<Rightarrow> (error + unit) \<times> world" where
  "sleep secs w =
     (if secs < 0 then (Inl SleepValueError, w)
      else if interrupted w (sleeps w) then (Inl KeyboardInterrupt, w\<lparr>sleeps := Suc (sleeps w)\<rparr>)
      else (Inr (), w\<lparr>sleeps := Suc (sleeps w)\<rparr>))"

definition is_restart :: "request \<Rightarrow> bool" where
  "is_restart rq = (case rq of Post_restart _ _ \<Rightarrow> True | _ \<Rightarrow> False)"

definition is_auth :: "request \<Rightarrow> bool" where
  "is_auth rq = (case rq of Post_auth _ _ _ \<Rightarrow> True | _ \<Rightarrow> False)"

definition restarts :: "world \<Rightarrow> nat" where
  "restarts w = length (filter is_restart (sent w))"

section \<open>PortainerAPI\<close>

record portainer_api =
  url :: string
  api_key :: "string option"
  username :: "string option"
  password :: "string option"
  jwt_token :: "string option"
  jwt_expiry :: "datetime option"

definition PortainerAPI ::
  "string \<Rightarrow> string option \<Rightarrow> string option \<Rightarrow> string option \<Rightarrow> portainer_api" where
  "PortainerAPI u k usr pw =
     \<lparr>url = rstrip_slash u, api_key = k, username = usr, password = pw,
      jwt_token = None, jwt_expiry = None\<rparr>"

definition auth_url :: "portainer_api \<Rightarrow> string" where
  "auth_url a = url a @ ''/api/auth''"

definition containers_url :: "portainer_api \<Rightarrow> string \<Rightarrow> string" where
  "containers_url a endpoint = url a @ ''/api/endpoints/'' @ endpoint @ ''/docker/containers/json?all=1''"

definition restart_url :: "portainer_api \<Rightarrow> string \<Rightarrow> string \<Rightarrow> string" where
  "restart_url a endpoint cid =
     url a @ ''/api/endpoints/'' @ endpoint @ ''/docker/containers/'' @ cid @ ''/restart''"

text \<open>\<^verbatim>\<open>_authenticate\<close>: the handler at line 62 logs and re-raises, so an error passes through.\<close>

definition authenticate :: "portainer_api \<Rightarrow> world \<Rightarrow> (error + unit) \<times> portainer_api \<times> world" where
  "authenticate a w =
     (if \<not> truthy (username a) \<or> \<not> truthy (password a) then (Inl AuthCredentialsMissing, a, w)
      else case http (Post_auth (auth_url a) (username a) (password a)) w of
          (Inl e, w1) \<Rightarrow> (Inl e, a, w1)
        | (Inr (JwtBody t), w1) \<Rightarrow>
            (case now w1 of (t_now, w2) \<Rightarrow>
               (Inr (), a\<lparr>jwt_token := Some t, jwt_expiry := Some (t_now + jwt_lifetime)\<rparr>, w2))
        | (Inr _, w1) \<Rightarrow> (Inl RequestFailed, a, w1))"

text \<open>
  Line 38: \<^verbatim>\<open>not self.jwt_token or datetime.now() >= self.jwt_expiry\<close>. The clock is read only
  when the token is truthy.
\<close>

definition token_stale :: "portainer_api \<Rightarrow> world \<Rightarrow> (error + bool) \<times> world" where
  "token_stale a w =
     (if \<not> truthy (jwt_token a) then (Inr True, w)
      else case now w of (t, w1) \<Rightarrow>
        (case jwt_expiry a of
           None \<Rightarrow> (Inl TypeError, w1)
         | Some expiry \<Rightarrow> (Inr (expiry \<le> t), w1)))"

definition bearer :: "portainer_api \<Rightarrow> headers" where
  "bearer a = [(''Authorization'', ''Bearer '' @ the (jwt_token a))]"

definition get_headers :: "portainer_api \<Rightarrow> world \<Rightarrow> (error + headers) \<times> portainer_api \<times> world" where
  "get_headers a w =
     (if truthy (api_key a) then (Inr [(''X-API-Key'', the (api_key a))], a, w)
      else case token_stale a w of
          (Inl e, w1) \<Rightarrow> (Inl e, a, w1)
        | (Inr True, w1) \<Rightarrow>
            (case authenticate a w1 of
               (Inl e, a2, w2) \<Rightarrow> (Inl e, a2, w2)
             | (Inr _, a2, w2) \<Rightarrow> (Inr (bearer a2), a2, w2))
        | (Inr False, w1) \<Rightarrow> (Inr (bearer a), a, w1))"

text \<open>The loop of lines 76 to 85 over the containers of the response.\<close>

text \<open>
  \<^verbatim>\<open>container.get('Names', [])\<close>: the default stands for a missing key only; a key holding
  \<^verbatim>\<open>null\<close> gives \<open>None\<close>, and the membership test of line 79 then raises \<^verbatim>\<open>TypeError\<close>.
\<close>

definition names_of :: "container \<Rightarrow> string list option" where
  "names_of c = (case c_Names c of
      Names_absent \<Rightarrow> Some [] | Names_null \<Rightarrow> None | Names_list ns \<Rightarrow> Some ns)"

fun find_container :: "string \<Rightarrow> container list \<Rightarrow> error + string" where
  "find_container container_name [] = Inl (ContainerNotFound container_name)"
| "find_container container_name (c # cs) =
     (case names_of c of
        None \<Rightarrow> Inl TypeError
      | Some names \<Rightarrow>
          if (CHR ''/'' # container_name) \<in> set names \<or> container_name \<in> set names
            then Inr (c_Id c)
          else if prefix container_name (c_Id c) then Inr (c_Id c)
          else find_container container_name cs)"

definition get_container_id ::
  "portainer_api \<Rightarrow> string \<Rightarrow> string \<Rightarrow> world \<Rightarrow> (error + string) \<times> portainer_api \<times> world" where
  "get_container_id a endpoint container_name w =
     (case get_headers a w of
        (Inl e, a1, w1) \<Rightarrow> (Inl e, a1, w1)
      | (Inr h, a1, w1) \<Rightarrow>
          (case http (Get_containers (containers_url a endpoint) h) w1 of
             (Inl e, w2) \<Rightarrow> (Inl e, a1, w2)
           | (Inr (ContainerList cs), w2) \<Rightarrow> (find_container container_name cs, a1, w2)
           | (Inr _, w2) \<Rightarrow> (Inl RequestFailed, a1, w2)))"

definition restart_container ::
  "portainer_api \<Rightarrow> string \<Rightarrow> string \<Rightarrow> world \<Rightarrow> (error + bool) \<times> portainer_api \<times> world" where
  "restart_container a endpoint cid w =
     (case get_headers a w of
        (Inl e, a1, w1) \<Rightarrow> (Inl e, a1, w1)
      | (Inr h, a1, w1) \<Rightarrow>
          (case http (Post_restart (restart_url a endpoint cid) h) w1 of
             (Inl e, w2) \<Rightarrow> (Inl e, a1, w2)
           | (Inr _, w2) \<Rightarrow> (Inr True, a1, w2)))"

section \<open>ContainerRestarter\<close>

text \<open>
  The fields read from the environment (lines 109 to 116) form the configuration; the
  scheduler adds the client, the cached identifier and the date of the last restart. The
  three credentials carry the prefix \<open>cfg\<close> to tell them from the client's fields.
\<close>

record config =
  portainer_url :: "string option"
  cfg_api_key :: "string option"
  cfg_username :: "string option"
  cfg_password :: "string option"
  endpoint_id :: string
  container_name :: "string option"
  restart_time :: string
  check_interval :: int

record container_restarter = config +
  api :: portainer_api
  container_id :: "string option"
  last_restart_date :: "nat option"

definition validate_config :: "'a config_scheme \<Rightarrow> error + unit" where
  "validate_config c =
     (if \<not> truthy (portainer_url c) then Inl UrlRequired
      else if \<not> truthy (cfg_api_key c) \<and> \<not> (truthy (cfg_username c) \<and> truthy (cfg_password c))
        then Inl CredentialsRequired
      else if \<not> truthy (container_name c) then Inl ContainerNameRequired
      else case strptime_HM (restart_time c) of
          None \<Rightarrow> Inl (BadRestartTime (restart_time c))
        | Some _ \<Rightarrow> Inr ())"

text \<open>\<^verbatim>\<open>ContainerRestarter.__init__\<close>: no clock, no request, no sleep; only the environment.\<close>

definition ContainerRestarter :: "environ \<Rightarrow> error + container_restarter" where
  "ContainerRestarter env =
     (case py_int (getenv_default env ''CHECK_INTERVAL'' ''60'') of
        None \<Rightarrow> Inl IntValueError
      | Some interval \<Rightarrow>
          (let c = \<lparr>portainer_url = getenv env ''PORTAINER_URL'',
                    cfg_api_key = getenv env ''PORTAINER_API_KEY'',
                    cfg_username = getenv env ''PORTAINER_USERNAME'',
                    cfg_password = getenv env ''PORTAINER_PASSWORD'',
                    endpoint_id = getenv_default env ''ENDPOINT_ID'' ''1'',
                    container_name = getenv env ''CONTAINER_NAME'',
                    restart_time = getenv_default env ''RESTART_TIME'' ''03:00'',
                    check_interval = interval\<rparr>
           in case validate_config c of
                Inl e \<Rightarrow> Inl e
              | Inr _ \<Rightarrow>
                  Inr (config.extend c
                    (container_restarter.fields
                       (PortainerAPI (the (portainer_url c)) (cfg_api_key c)
                          (cfg_username c) (cfg_password c))
                       None None))))"

definition should_restart :: "container_restarter \<Rightarrow> world \<Rightarrow> (error + bool) \<times> world" where
  "should_restart s w =
     (case now w of (t, w1) \<Rightarrow>
        (case strptime_HM (restart_time s) of
           None \<Rightarrow> (Inl StrptimeValueError, w1)
         | Some target_time \<Rightarrow>
             (let time_match = (dt_hour t = dt_hour target_time \<and> dt_minute t = dt_minute target_time);
                  not_restarted_today = (last_restart_date s \<noteq> Some (dt_date t))
              in (Inr (time_match \<and> not_restarted_today), w1))))"

text \<open>Lines 192 to 197: resolve the identifier when none is cached.\<close>

definition resolve ::
  "container_restarter \<Rightarrow> world \<Rightarrow> (error + unit) \<times> container_restarter \<times> world" where
  "resolve s w =
     (if \<not> truthy (container_id s) then
        (case get_container_id (api s) (endpoint_id s) (the (container_name s)) w of
           (Inl e, a1, w1) \<Rightarrow> (Inl e, s\<lparr>api := a1\<rparr>, w1)
         | (Inr cid, a1, w1) \<Rightarrow> (Inr (), s\<lparr>api := a1, container_id := Some cid\<rparr>, w1))
      else (Inr (), s, w))"

text \<open>
  Lines 199 to 206. The f-string of the debug message at line 206 reads the clock whether or
  not the message is printed.
\<close>

definition check_and_restart ::
  "container_restarter \<Rightarrow> world \<Rightarrow> (error + unit) \<times> container_restarter \<times> world" where
  "check_and_restart s w =
     (case should_restart s w of
        (Inl e, w1) \<Rightarrow> (Inl e, s, w1)
      | (Inr True, w1) \<Rightarrow>
          (case restart_container (api s) (endpoint_id s) (the (container_id s)) w1 of
             (Inl e, a1, w2) \<Rightarrow> (Inl e, s\<lparr>api := a1\<rparr>, w2)
           | (Inr _, a1, w2) \<Rightarrow>
               (case now w2 of (t, w3) \<Rightarrow>
                  (Inr (), s\<lparr>api := a1, last_restart_date := Some (dt_date t)\<rparr>, w3)))
      | (Inr False, w1) \<Rightarrow>
          (case strptime_HM (restart_time s) of
             None \<Rightarrow> (Inl StrptimeValueError, s, w1)
           | Some _ \<Rightarrow> (case now w1 of (t, w2) \<Rightarrow> (Inr (), s, w2))))"

text \<open>The body of the \<^verbatim>\<open>try\<close> at line 190.\<close>

definition try_block ::
  "container_restarter \<Rightarrow> world \<Rightarrow> (error + unit) \<times> container_restarter \<times> world" where
  "try_block s w =
     (case resolve s w of
        (Inl e, s1, w1) \<Rightarrow> (Inl e, s1, w1)
      | (Inr _, s1, w1) \<Rightarrow> check_and_restart s1 w1)"

text \<open>
  One pass of the \<^verbatim>\<open>try\<close>/\<^verbatim>\<open>except Exception\<close> of lines 190 to 211: \<open>None\<close> when the pass
  ends normally or its error is caught, \<open>Some e\<close> when \<open>e\<close> leaves the loop.
\<close>

definition tick ::
  "container_restarter \<Rightarrow> world \<Rightarrow> error option \<times> container_restarter \<times> world" where
  "tick s w =
     (case try_block s w of
        (Inr _, s1, w1) \<Rightarrow> (None, s1, w1)
      | (Inl e, s1, w1) \<Rightarrow>
          if is_Exception e then (None, s1\<lparr>container_id := None\<rparr>, w1)
          else (Some e, s1, w1))"

text \<open>
  The \<^verbatim>\<open>while True\<close> of line 189, cut after \<open>n\<close> passes: \<open>None\<close> means the loop is still
  running. \<^verbatim>\<open>time.sleep\<close> at line 213 stands outside the \<^verbatim>\<open>try\<close>.
\<close>

fun loop ::
  "nat \<Rightarrow> container_restarter \<Rightarrow> world \<Rightarrow> error option \<times> container_restarter \<times> world" where
  "loop 0 s w = (None, s, w)"
| "loop (Suc n) s w =
     (case tick s w of
        (Some e, s1, w1) \<Rightarrow> (Some e, s1, w1)
      | (None, s1, w1) \<Rightarrow>
          (case sleep (check_interval s1) w1 of
             (Inl e, w2) \<Rightarrow> (Some e, s1, w2)
           | (Inr _, w2) \<Rightarrow> loop n s1 w2))"

text \<open>Lines 179 to 187: the lookup at startup, whose \<^verbatim>\<open>Exception\<close> is logged and dropped.\<close>

definition startup ::
  "container_restarter \<Rightarrow> world \<Rightarrow> error option \<times> container_restarter \<times> world" where
  "startup s w =
     (case get_container_id (api s) (endpoint_id s) (the (container_name s)) w of
        (Inr cid, a1, w1) \<Rightarrow> (None, s\<lparr>api := a1, container_id := Some cid\<rparr>, w1)
      | (Inl e, a1, w1) \<Rightarrow>
          if is_Exception e then (None, s\<lparr>api := a1\<rparr>, w1) else (Some e, s\<lparr>api := a1\<rparr>, w1))"

definition run ::
  "nat \<Rightarrow> container_restarter \<Rightarrow> world \<Rightarrow> error option \<times> container_restarter \<times> world" where
  "run n s w =
     (case startup s w of
        (Some e, s1, w1) \<Rightarrow> (Some e, s1, w1)
      | (None, s1, w1) \<Rightarrow> loop n s1 w1)"

text \<open>
  \<^verbatim>\<open>main\<close>: the exit code of the process, or \<open>None\<close> while the loop is still running after
  \<open>n\<close> passes.
\<close>

definition exit_code :: "error \<Rightarrow> int" where
  "exit_code e = (if e = KeyboardInterrupt then 0 else 1)"

definition main :: "nat \<Rightarrow> environ \<Rightarrow> world \<Rightarrow> int option \<times> world" where
  "main n env w =
     (case ContainerRestarter env of
        Inl e \<Rightarrow> (Some (exit_code e), w)
      | Inr s \<Rightarrow>
          (case run n s w of
             (Some e, s1, w1) \<Rightarrow> (Some (exit_code e), w1)
           | (None, s1, w1) \<Rightarrow> (None, w1)))"

section \<open>The format of the restart time, in the words of the specification\<close>

text \<open>
  ``24-hour HH:MM format'': two digits for the hour, a colon, two digits for the minute,
  the hour below 24 and the minute below 60. This reading of the specification is compared
  with what \<open>strptime_HM\<close> accepts.
\<close>

definition hhmm_format :: "string \<Rightarrow> bool" where
  "hhmm_format s = (case s of
      [h1, h2, c, m1, m2] \<Rightarrow>
        is_digit h1 \<and> is_digit h2 \<and> c = CHR '':'' \<and> is_digit m1 \<and> is_digit m2 \<and>
        10 * digit_val h1 + digit_val h2 < 24 \<and> 10 * digit_val m1 + digit_val m2 < 60
    | _ \<Rightarrow> False)"

text \<open>
  The format of the amended claim: an hour from 0 to 23 and a minute from 0 to 59, each
  written with one or two digits, with a colon between them and nothing else.
\<close>

definition one_or_two_digits :: "string \<Rightarrow> bool" where
  "one_or_two_digits s = (case s of
      [a] \<Rightarrow> is_digit a | [a, b] \<Rightarrow> is_digit a \<and> is_digit b | _ \<Rightarrow> False)"

definition number_of :: "string \<Rightarrow> nat" where
  "number_of s = foldl (\<lambda>n c. 10 * n + digit_val c) 0 s"

definition hm_format :: "string \<Rightarrow> bool" where
  "hm_format s =
     (let hs = takeWhile (\<lambda>c. c \<noteq> CHR '':'') s; r = dropWhile (\<lambda>c. c \<noteq> CHR '':'') s
      in r \<noteq> [] \<and> one_or_two_digits hs \<and> one_or_two_digits (tl r) \<and>
         number_of hs < 24 \<and> number_of (tl r) < 60)"

section \<open>Example inputs\<close>

text \<open>03:00 on day 738000, and the same day at 03:00:20.\<close>

definition t_0300 :: datetime where
  "t_0300 = 738000 * 86400000000 + 3 * 3600000000"

definition web :: container where
  "web = \<lparr>c_Id = ''abc123'', c_Names = Names_list [''/web'']\<rparr>"

definition db :: container where
  "db = \<lparr>c_Id = ''ffe456'', c_Names = Names_list [''/db'']\<rparr>"

text \<open>A container whose \<open>Names\<close> is \<^verbatim>\<open>null\<close>, and one without the key.\<close>

definition nameless :: container where
  "nameless = \<lparr>c_Id = ''0d1e2f'', c_Names = Names_null\<rparr>"

definition unnamed :: container where
  "unnamed = \<lparr>c_Id = ''77aa88'', c_Names = Names_absent\<rparr>"

text \<open>A world whose clock stands at \<open>t\<close> and whose every request succeeds.\<close>

definition world_ok :: "datetime \<Rightarrow> world" where
  "world_ok t =
     \<lparr>clock = (\<lambda>k. t), reads = 0, net = (\<lambda>k. Inr (ContainerList [db, web])), sent = [],
      interrupted = (\<lambda>k. False), sleeps = 0\<rparr>"

text \<open>A world whose listing holds a container with \<^verbatim>\<open>null\<close> names before \<open>web\<close>.\<close>

definition world_null_names :: "datetime \<Rightarrow> world" where
  "world_null_names t =
     \<lparr>clock = (\<lambda>k. t), reads = 0, net = (\<lambda>k. Inr (ContainerList [nameless, web])), sent = [],
      interrupted = (\<lambda>k. False), sleeps = 0\<rparr>"

text \<open>The same world as \<open>world_ok\<close>, except that its first request fails.\<close>

definition world_first_fails :: "datetime \<Rightarrow> world" where
  "world_first_fails t =
     \<lparr>clock = (\<lambda>k. t), reads = 0,
      net = (\<lambda>k. if k = 0 then Inl RequestFailed else Inr (ContainerList [db, web])), sent = [],
      interrupted = (\<lambda>k. False), sleeps = 0\<rparr>"

text \<open>A world whose authentication endpoint answers with the token \<open>tok\<close>.\<close>

definition world_jwt :: "datetime \<Rightarrow> world" where
  "world_jwt t =
     \<lparr>clock = (\<lambda>k. t), reads = 0, net = (\<lambda>k. Inr (JwtBody ''tok'')), sent = [],
      interrupted = (\<lambda>k. False), sleeps = 0\<rparr>"

definition env_key :: environ where
  "env_key = [''PORTAINER_URL'' \<mapsto> ''http://p/'', ''PORTAINER_API_KEY'' \<mapsto> ''k'',
              ''CONTAINER_NAME'' \<mapsto> ''web'']"




definition env_negative_interval :: environ where
  "env_negative_interval = [''PORTAINER_URL'' \<mapsto> ''http://p/'', ''PORTAINER_API_KEY'' \<mapsto> ''k'',
              ''CONTAINER_NAME'' \<mapsto> ''web'', ''CHECK_INTERVAL'' \<mapsto> ''-1'']"

text \<open>The scheduler of \<open>env_key\<close> once its container is resolved, and before.\<close>

definition s_ready :: container_restarter where
  "s_ready =
     \<lparr>portainer_url = Some ''http://p/'', cfg_api_key = Some ''k'', cfg_username = None,
      cfg_password = None, endpoint_id = ''1'', container_name = Some ''web'',
      restart_time = ''03:00'', check_interval = 60,
      api = PortainerAPI ''http://p/'' (Some ''k'') None None,
      container_id = Some ''abc123'', last_restart_date = None\<rparr>"

definition s_resolving :: container_restarter where
  "s_resolving = s_ready\<lparr>container_id := None\<rparr>"

definition api_password :: portainer_api where
  "api_password = PortainerAPI ''http://p/'' None (Some ''u'') (Some ''pw'')"

text \<open>The password client holding a token that expires seven and a half hours after 03:00.\<close>

definition api_token :: portainer_api where
  "api_token = api_password\<lparr>jwt_token := Some ''tok'', jwt_expiry := Some (t_0300 + jwt_lifetime)\<rparr>"

text \<open>
  What holds of the client in every state of a run: without an API key it has a username and
  a password (startup validation), and a token is never set without its expiry (line 58 and
  line 60 set both).
\<close>

definition client_ok :: "portainer_api \<Rightarrow> bool" where
  "client_ok a =
     ((\<not> truthy (api_key a) \<longrightarrow> truthy (username a) \<and> truthy (password a)) \<and>
      (truthy (jwt_token a) \<longrightarrow> jwt_expiry a \<noteq> None))"

text \<open>
  \<open>later w w'\<close>: the world \<open>w'\<close> may follow \<open>w\<close> in a run: the same clock, read at least as
  often.
\<close>

definition later :: "world \<Rightarrow> world \<Rightarrow> bool" where
  "later w w' = (clock w' = clock w \<and> reads w \<le> reads w')"

section \<open>Facts about the runtime values\<close>

lemmas strptime_defs = strptime_HM_def regex_HM_def match_2_03_def match_01_d_def match_d_def
  match_05_d_def match_minute_def after_hour_def List.map_filter_simps is_digit_def digit_val_def



lemma strptime_0300: "strptime_HM ''03:00'' = Some (datetime_1900 3 0)"
  by (simp add: strptime_defs)

lemma dt_t_0300: "dt_hour t_0300 = 3" "dt_minute t_0300 = 0" "dt_date t_0300 = 738000"
  by (simp_all add: t_0300_def dt_hour_def dt_minute_def dt_date_def)

lemma dt_1900_3_0: "dt_hour (datetime_1900 3 0) = 3" "dt_minute (datetime_1900 3 0) = 0"
  by (simp_all add: datetime_1900_def dt_hour_def dt_minute_def)

section \<open>The client's URLs\<close>


section \<open>The scheduling decision\<close>

text \<open>
  Claim C2. In a scheduler whose restart time parses, \<open>should_restart\<close> returns true exactly
  when the hour and the minute of the clock reading equal those of the target time and the
  date of the last restart differs from the date of the reading.
\<close>

theorem should_restart_iff:
  assumes "strptime_HM (restart_time s) = Some target_time"
  shows "fst (should_restart s w) =
           Inr (dt_hour (clock w (reads w)) = dt_hour target_time \<and>
                dt_minute (clock w (reads w)) = dt_minute target_time \<and>
                last_restart_date s \<noteq> Some (dt_date (clock w (reads w))))"
  using assms by (simp add: should_restart_def now_def)

theorem should_restart_iff_witness:
  "strptime_HM (restart_time s_ready) = Some (datetime_1900 3 0) \<and>
   fst (should_restart s_ready (world_ok t_0300)) = Inr True"
  using should_restart_iff [of s_ready "datetime_1900 3 0" "world_ok t_0300"]
  by (simp add: s_ready_def world_ok_def strptime_0300 dt_t_0300 dt_1900_3_0)

section \<open>Resolving the container\<close>

text \<open>
  On a listing without \<^verbatim>\<open>null\<close> names the loop returns the identifier of a container that
  has the name with a leading slash or the bare name among its names, or an identifier that
  starts with the name; it raises the not-found error when there is none.
\<close>

lemma find_container_not_found:
  assumes "\<forall>c \<in> set cs. \<exists>ns. names_of c = Some ns \<and> (CHR ''/'' # name) \<notin> set ns \<and> name \<notin> set ns
              \<and> \<not> prefix name (c_Id c)"
  shows "find_container name cs = Inl (ContainerNotFound name)"
  using assms by (induction cs) auto

lemma find_container_found:
  assumes "\<forall>c \<in> set cs. names_of c \<noteq> None"
      and "\<exists>c \<in> set cs. (CHR ''/'' # name) \<in> set (the (names_of c))
              \<or> name \<in> set (the (names_of c)) \<or> prefix name (c_Id c)"
  shows "\<exists>c \<in> set cs. ((CHR ''/'' # name) \<in> set (the (names_of c))
              \<or> name \<in> set (the (names_of c)) \<or> prefix name (c_Id c))
            \<and> find_container name cs = Inr (c_Id c)"
  using assms
proof (induction cs)
  case Nil
  then show ?case by simp
next
  case (Cons c cs)
  then obtain ns where ns: "names_of c = Some ns" by auto
  show ?case
  proof (cases "(CHR ''/'' # name) \<in> set ns \<or> name \<in> set ns \<or> prefix name (c_Id c)")
    case True
    with ns have "find_container name (c # cs) = Inr (c_Id c)" by auto
    with True ns show ?thesis by auto
  next
    case False
    with ns have f: "find_container name (c # cs) = find_container name cs" by auto
    from False ns Cons.prems(2)
    have "\<exists>c \<in> set cs. (CHR ''/'' # name) \<in> set (the (names_of c))
              \<or> name \<in> set (the (names_of c)) \<or> prefix name (c_Id c)" by auto
    moreover from Cons.prems(1) have "\<forall>c \<in> set cs. names_of c \<noteq> None" by simp
    ultimately obtain c' where "c' \<in> set cs"
      "(CHR ''/'' # name) \<in> set (the (names_of c')) \<or> name \<in> set (the (names_of c'))
         \<or> prefix name (c_Id c')"
      "find_container name cs = Inr (c_Id c')"
      using Cons.IH by blast
    with f show ?thesis by auto
  qed
qed

lemma find_container_null:
  "names_of c = None \<Longrightarrow> find_container name (c # cs) = Inl TypeError"
  by simp

lemma get_container_id_listed:
  assumes "get_headers a w = (Inr h, a1, w1)"
      and "net w1 (length (sent w1)) = Inr (ContainerList cs)"
  shows "fst (get_container_id a endpoint name w) = find_container name cs"
  using assms by (simp add: get_container_id_def http_def)

lemma get_headers_key: "truthy (api_key a) \<Longrightarrow> get_headers a w = (Inr [(''X-API-Key'', the (api_key a))], a, w)"
  by (simp add: get_headers_def)

text \<open>
  Claim C3. The listing \<^verbatim>\<open>[{"Id": "0d1e2f", "Names": null}, {"Id": "abc123", "Names": ["/web"]}]\<close>
  holds a container named \<open>/web\<close>, yet \<open>get_container_id\<close> for \<open>web\<close> raises \<^verbatim>\<open>TypeError\<close> at
  the first container: it neither returns \<open>abc123\<close> nor raises the not-found error. With the
  \<open>Names\<close> key missing instead of \<^verbatim>\<open>null\<close>, the same lookup returns \<open>abc123\<close>.
\<close>

theorem null_names_raises:
  "net (world_null_names t_0300) 0 = Inr (ContainerList [nameless, web]) \<and>
   (CHR ''/'' # ''web'') \<in> set (the (names_of web)) \<and>
   fst (get_container_id (api s_ready) ''1'' ''web'' (world_null_names t_0300)) = Inl TypeError \<and>
   find_container ''web'' [unnamed, web] = Inr ''abc123''"
  by (simp add: get_container_id_def get_headers_def http_def s_ready_def PortainerAPI_def
      truthy_def world_null_names_def nameless_def unnamed_def web_def names_of_def)

section \<open>The restart times that \<^verbatim>\<open>strptime\<close> accepts\<close>

text \<open>
  \<open>strptime_HM\<close> accepts exactly the strings of the format \<open>hm_format\<close>; the strings of the
  stricter \<open>hhmm_format\<close> are among them.
\<close>

lemma digit_not_colon: "is_digit c \<Longrightarrow> c \<noteq> CHR '':''"
  by (auto simp: is_digit_def)

















lemma one_two_simps:
  "one_or_two_digits [] = False" "one_or_two_digits [a] = is_digit a"
  "one_or_two_digits [a, b] = (is_digit a \<and> is_digit b)"
  "one_or_two_digits (a # b # c # r) = False"
  by (simp_all add: one_or_two_digits_def)

lemma number_simps:
  "number_of [a] = digit_val a" "number_of [a, b] = 10 * digit_val a + digit_val b"
  by (simp_all add: number_of_def)






lemma hhmm_is_hm: "hhmm_format s \<Longrightarrow> hm_format s"
  by (auto simp: hhmm_format_def hm_format_def one_two_simps number_simps digit_not_colon
      split: list.splits)

section \<open>Construction of the scheduler\<close>

lemma py_int_60: "py_int ''60'' = Some 60"
  by (simp add: py_int_def strip_def is_space_def parse_nat_def is_digit_def digit_val_def)


lemma validate_config_ok:
  "truthy (portainer_url c) \<Longrightarrow> truthy (cfg_api_key c) \<or> truthy (cfg_username c) \<and> truthy (cfg_password c)
   \<Longrightarrow> truthy (container_name c) \<Longrightarrow> strptime_HM (restart_time c) = Some t
   \<Longrightarrow> validate_config c = Inr ()"
  by (auto simp: validate_config_def)

text \<open>
  Claim C9. When \<open>ENDPOINT_ID\<close>, \<open>RESTART_TIME\<close> and \<open>CHECK_INTERVAL\<close> are unset, a constructed
  scheduler has endpoint id \<open>1\<close>, restart time \<open>03:00\<close> and check interval 60; construction
  succeeds as soon as the required variables are set, and an error of construction is never
  about the defaults.
\<close>

theorem optional_defaults:
  assumes "env ''ENDPOINT_ID'' = None" and "env ''RESTART_TIME'' = None"
      and "env ''CHECK_INTERVAL'' = None"
  shows "(\<forall>s. ContainerRestarter env = Inr s \<longrightarrow>
            endpoint_id s = ''1'' \<and> restart_time s = ''03:00'' \<and> check_interval s = 60) \<and>
         (truthy (env ''PORTAINER_URL'') \<and>
          (truthy (env ''PORTAINER_API_KEY'')
             \<or> truthy (env ''PORTAINER_USERNAME'') \<and> truthy (env ''PORTAINER_PASSWORD'')) \<and>
          truthy (env ''CONTAINER_NAME'')
            \<longrightarrow> \<not> isl (ContainerRestarter env)) \<and>
         (\<forall>e. ContainerRestarter env = Inl e \<longrightarrow>
            e = UrlRequired \<or> e = CredentialsRequired \<or> e = ContainerNameRequired)"
  using assms
  by (auto simp: ContainerRestarter_def getenv_default_def getenv_def py_int_60 Let_def
        validate_config_def strptime_0300 config.extend_def container_restarter.fields_def
      split: sum.splits if_splits)

theorem optional_defaults_witness:
  "env_key ''ENDPOINT_ID'' = None \<and> env_key ''RESTART_TIME'' = None \<and>
   env_key ''CHECK_INTERVAL'' = None \<and>
   \<not> isl (ContainerRestarter env_key) \<and>
   endpoint_id (projr (ContainerRestarter env_key)) = ''1'' \<and>
   restart_time (projr (ContainerRestarter env_key)) = ''03:00'' \<and>
   check_interval (projr (ContainerRestarter env_key)) = 60"
proof -
  have u: "env_key ''ENDPOINT_ID'' = None" "env_key ''RESTART_TIME'' = None"
    "env_key ''CHECK_INTERVAL'' = None"
    by (simp_all add: env_key_def)
  have t: "truthy (env_key ''PORTAINER_URL'')" "truthy (env_key ''PORTAINER_API_KEY'')"
    "truthy (env_key ''CONTAINER_NAME'')"
    by (simp_all add: env_key_def truthy_def)
  from optional_defaults [OF u] t have "\<not> isl (ContainerRestarter env_key)" by simp
  then obtain s where s: "ContainerRestarter env_key = Inr s"
    by (cases "ContainerRestarter env_key") auto
  with optional_defaults [OF u] u show ?thesis by simp
qed







section \<open>Authentication headers\<close>

lemma authenticate_sent:
  "truthy (username a) \<Longrightarrow> truthy (password a) \<Longrightarrow>
   sent (snd (snd (authenticate a w))) = sent w @ [Post_auth (auth_url a) (username a) (password a)]"
  by (simp add: authenticate_def http_def now_def split: sum.splits body.splits)

lemma authenticate_result:
  "truthy (username a) \<Longrightarrow> truthy (password a) \<Longrightarrow>
   fst (authenticate a w) =
     (case net w (length (sent w)) of
        Inl e \<Rightarrow> Inl e | Inr (JwtBody t) \<Rightarrow> Inr () | Inr _ \<Rightarrow> Inl RequestFailed)"
  by (simp add: authenticate_def http_def now_def split: sum.splits body.splits)

lemma authenticate_token:
  "truthy (username a) \<Longrightarrow> truthy (password a) \<Longrightarrow> net w (length (sent w)) = Inr (JwtBody t) \<Longrightarrow>
   jwt_token (fst (snd (authenticate a w))) = Some t"
  by (simp add: authenticate_def http_def now_def)

section \<open>What a pass of the loop leaves unchanged\<close>

lemma later_refl: "later w w"
  by (simp add: later_def)

lemma later_trans: "later w w1 \<Longrightarrow> later w1 w2 \<Longrightarrow> later w w2"
  by (auto simp: later_def)

lemma now_later: "later w (snd (now w))"
  by (simp add: now_def later_def)

lemma now_restarts: "restarts (snd (now w)) = restarts w"
  by (simp add: now_def restarts_def)

lemma http_later: "later w (snd (http rq w))"
  by (simp add: http_def later_def)

lemma http_restarts: "restarts (snd (http rq w)) = restarts w + (if is_restart rq then 1 else 0)"
  by (simp add: http_def restarts_def)



lemma authenticate_frame:
  "authenticate a w = (r, a1, w1) \<Longrightarrow> later w w1 \<and> restarts w1 = restarts w"
  by (auto simp: authenticate_def http_def now_def later_def restarts_def is_restart_def
      split: if_splits sum.splits body.splits)

lemma token_stale_frame:
  "token_stale a w = (r, w1) \<Longrightarrow> later w w1 \<and> restarts w1 = restarts w"
  by (auto simp: token_stale_def now_def later_def restarts_def split: if_splits option.splits)

lemma get_headers_frame:
  assumes "get_headers a w = (r, a1, w1)"
  shows "later w w1 \<and> restarts w1 = restarts w"
proof (cases "truthy (api_key a)")
  case True
  with assms show ?thesis by (simp add: get_headers_def later_refl)
next
  case False
  obtain st w0 where ts: "token_stale a w = (st, w0)" by (cases "token_stale a w")
  note f0 = token_stale_frame [OF ts]
  show ?thesis
  proof (cases st)
    case (Inl e)
    with assms False ts f0 show ?thesis by (simp add: get_headers_def)
  next
    case (Inr b)
    show ?thesis
    proof (cases b)
      case True
      obtain ra a2 w2 where au: "authenticate a w0 = (ra, a2, w2)" by (cases "authenticate a w0")
      note f1 = authenticate_frame [OF au]
      from assms False ts Inr True au have "w1 = w2"
        by (simp add: get_headers_def split: sum.splits)
      with f0 f1 show ?thesis by (auto intro: later_trans)
    next
      case no: False
      with assms False ts Inr f0 show ?thesis by (simp add: get_headers_def)
    qed
  qed
qed

lemma get_container_id_frame:
  assumes "get_container_id a ep name w = (r, a1, w1)"
  shows "later w w1 \<and> restarts w1 = restarts w"
proof -
  obtain rh ah wh where gh: "get_headers a w = (rh, ah, wh)" by (cases "get_headers a w")
  note f0 = get_headers_frame [OF gh]
  show ?thesis
  proof (cases rh)
    case (Inl e)
    with assms gh f0 show ?thesis by (simp add: get_container_id_def)
  next
    case (Inr h)
    with assms gh have "w1 = snd (http (Get_containers (containers_url a ep) h) wh)"
      by (auto simp: get_container_id_def split: prod.splits sum.splits body.splits)
    with f0 http_later [of wh] show ?thesis
      by (auto simp: http_restarts is_restart_def intro: later_trans)
  qed
qed

lemma restart_container_frame:
  assumes "restart_container a ep cid w = (r, a1, w1)"
  shows "later w w1 \<and> restarts w1 \<le> Suc (restarts w) \<and> (\<not> isl r \<longrightarrow> restarts w1 = Suc (restarts w))"
proof -
  obtain rh ah wh where gh: "get_headers a w = (rh, ah, wh)" by (cases "get_headers a w")
  note f0 = get_headers_frame [OF gh]
  show ?thesis
  proof (cases rh)
    case (Inl e)
    with assms gh f0 show ?thesis by (auto simp: restart_container_def)
  next
    case (Inr h)
    with assms gh have "w1 = snd (http (Post_restart (restart_url a ep cid) h) wh)"
      by (auto simp: restart_container_def split: prod.splits sum.splits)
    with f0 http_later [of wh] show ?thesis
      by (auto simp: http_restarts is_restart_def intro: later_trans)
  qed
qed

section \<open>What a pass of the scheduler leaves unchanged\<close>


lemma resolve_frame:
  assumes "resolve s w = (r, s1, w1)"
  shows "later w w1 \<and> restarts w1 = restarts w \<and> last_restart_date s1 = last_restart_date s \<and>
         restart_time s1 = restart_time s \<and> check_interval s1 = check_interval s"
proof (cases "truthy (container_id s)")
  case True
  with assms show ?thesis by (simp add: resolve_def later_refl)
next
  case False
  obtain rg ag wg where g:
    "get_container_id (api s) (endpoint_id s) (the (container_name s)) w = (rg, ag, wg)"
    by (cases "get_container_id (api s) (endpoint_id s) (the (container_name s)) w")
  from assms False g get_container_id_frame [OF g] show ?thesis
    by (cases rg) (auto simp: resolve_def)
qed

lemma resolve_container_id:
  "resolve s w = (Inr u, s1, w1) \<Longrightarrow> container_id s1 \<noteq> None"
  by (auto simp: resolve_def truthy_def split: if_splits prod.splits sum.splits option.splits)

lemma resolve_looks_up:
  "container_id s = None \<Longrightarrow> resolve s w = (Inr u, s1, w1) \<Longrightarrow>
   \<exists>cid. container_id s1 = Some cid \<and>
     fst (get_container_id (api s) (endpoint_id s) (the (container_name s)) w) = Inr cid"
  by (auto simp: resolve_def truthy_def split: if_splits prod.splits sum.splits)

lemma should_restart_later: "later w (snd (should_restart s w))"
  by (simp add: should_restart_def now_def later_def split: option.splits)



lemma check_and_restart_frame:
  assumes "check_and_restart s w = (r, s1, w1)"
  shows "later w w1 \<and> container_id s1 = container_id s \<and> restart_time s1 = restart_time s \<and>
         check_interval s1 = check_interval s"
proof -
  obtain b w0 where sr: "should_restart s w = (b, w0)" by (cases "should_restart s w")
  have l0: "later w w0" using should_restart_later [of w s] sr by simp
  show ?thesis
  proof (cases b)
    case (Inl e)
    with assms sr l0 show ?thesis by (simp add: check_and_restart_def)
  next
    case (Inr t)
    show ?thesis
    proof (cases t)
      case True
      obtain rr ar wr where rc:
        "restart_container (api s) (endpoint_id s) (the (container_id s)) w0 = (rr, ar, wr)"
        by (cases "restart_container (api s) (endpoint_id s) (the (container_id s)) w0")
      from restart_container_frame [OF rc] have l1: "later w0 wr" by simp
      from assms sr Inr True rc l0 l1 now_later [of wr] show ?thesis
        by (cases rr) (auto simp: check_and_restart_def split: prod.splits intro: later_trans)
    next
      case False
      with assms sr Inr l0 now_later [of w0] show ?thesis
        by (auto simp: check_and_restart_def split: option.splits prod.splits intro: later_trans)
    qed
  qed
qed



section \<open>Evaluating the examples\<close>

lemmas example_defs = s_ready_def s_resolving_def world_ok_def world_first_fails_def
  PortainerAPI_def rstrip_slash_def truthy_def web_def db_def names_of_def

lemmas pass_defs = tick_def try_block_def resolve_def check_and_restart_def should_restart_def
  restart_container_def get_container_id_def get_headers_def http_def now_def sleep_def
  is_Exception_def restart_url_def containers_url_def

lemma try_block_ready_ok:
  "fst (try_block s_ready (world_ok t_0300)) = Inr ()"
  by (simp add: pass_defs example_defs strptime_0300 dt_t_0300 dt_1900_3_0)

lemma try_block_resolving_ok:
  "fst (try_block s_resolving (world_ok t_0300)) = Inr ()"
  by (simp add: pass_defs example_defs strptime_0300 dt_t_0300 dt_1900_3_0)


lemma try_block_ready_fails:
  "fst (try_block s_ready (world_first_fails t_0300)) = Inl RequestFailed"
  by (simp add: pass_defs example_defs strptime_0300 dt_t_0300 dt_1900_3_0)

section \<open>Errors in a pass\<close>

lemma try_block_container_id:
  assumes "try_block s w = (Inr u, s1, w1)"
  shows "container_id s1 \<noteq> None"
proof -
  obtain rr sr wr where r: "resolve s w = (rr, sr, wr)" by (cases "resolve s w")
  with assms obtain v where rr: "rr = Inr v" and c: "check_and_restart sr wr = (Inr u, s1, w1)"
    by (cases rr) (auto simp: try_block_def)
  from r rr have "container_id sr \<noteq> None" by (simp add: resolve_container_id)
  with check_and_restart_frame [OF c] show ?thesis by simp
qed

section \<open>The header policy\<close>

lemma get_headers_with_key:
  "truthy (api_key a) \<Longrightarrow> get_headers a w = (Inr [(''X-API-Key'', the (api_key a))], a, w)"
  by (simp add: get_headers_def)

lemma get_headers_fresh:
  assumes "\<not> truthy (api_key a)" and "truthy (jwt_token a)" and "jwt_expiry a = Some expiry"
      and "clock w (reads w) < expiry"
  shows "get_headers a w
           = (Inr [(''Authorization'', ''Bearer '' @ the (jwt_token a))], a, w\<lparr>reads := Suc (reads w)\<rparr>)"
  using assms by (simp add: get_headers_def token_stale_def now_def bearer_def)

lemma get_headers_stale:
  assumes "\<not> truthy (api_key a)" and "truthy (username a)" and "truthy (password a)"
      and "truthy (jwt_token a) \<longrightarrow> jwt_expiry a \<noteq> None"
      and "\<not> truthy (jwt_token a) \<or> the (jwt_expiry a) \<le> clock w (reads w)"
  shows "get_headers a w =
     (let w0 = (if truthy (jwt_token a) then w\<lparr>reads := Suc (reads w)\<rparr> else w);
          w1 = w0\<lparr>sent := sent w @ [Post_auth (auth_url a) (username a) (password a)]\<rparr>
      in case net w (length (sent w)) of
           Inl e \<Rightarrow> (Inl e, a, w1)
         | Inr (JwtBody t) \<Rightarrow>
             (Inr [(''Authorization'', ''Bearer '' @ t)],
              a\<lparr>jwt_token := Some t, jwt_expiry := Some (clock w (reads w0) + jwt_lifetime)\<rparr>,
              w1\<lparr>reads := Suc (reads w0)\<rparr>)
         | Inr _ \<Rightarrow> (Inl RequestFailed, a, w1))"
proof (cases "truthy (jwt_token a)")
  case False
  with assms(1-3) show ?thesis
    by (simp add: get_headers_def token_stale_def authenticate_def http_def now_def bearer_def
        Let_def split: sum.splits body.splits)
next
  case True
  with assms(4) obtain expiry where e: "jwt_expiry a = Some expiry" by auto
  with True assms(5) have "expiry \<le> clock w (reads w)" by simp
  with True e assms(1-3) show ?thesis
    by (simp add: get_headers_def token_stale_def authenticate_def http_def now_def bearer_def
        Let_def split: sum.splits body.splits)
qed

lemma get_headers_client_ok:
  assumes "client_ok a"
  shows "client_ok (fst (snd (get_headers a w)))"
proof (cases "truthy (api_key a)")
  case True
  with assms show ?thesis by (simp add: get_headers_with_key)
next
  case False
  with assms have c: "truthy (username a)" "truthy (password a)"
    "truthy (jwt_token a) \<longrightarrow> jwt_expiry a \<noteq> None"
    by (simp_all add: client_ok_def)
  show ?thesis
  proof (cases "\<not> truthy (jwt_token a) \<or> the (jwt_expiry a) \<le> clock w (reads w)")
    case True
    from get_headers_stale [OF False c True] assms show ?thesis
      by (auto simp: client_ok_def Let_def truthy_def split: sum.splits body.splits)
  next
    case fresh: False
    with c obtain expiry where "jwt_expiry a = Some expiry" "clock w (reads w) < expiry"
      by auto
    from get_headers_fresh [OF False _ this] fresh assms show ?thesis by simp
  qed
qed

lemma get_headers_bearer:
  assumes "client_ok a" and "\<not> truthy (api_key a)" and "get_headers a w = (Inr h, a', w')"
  shows "h = [(''Authorization'', ''Bearer '' @ the (jwt_token a'))]"
proof -
  from assms(1,2) have c: "truthy (username a)" "truthy (password a)"
    "truthy (jwt_token a) \<longrightarrow> jwt_expiry a \<noteq> None"
    by (simp_all add: client_ok_def)
  show ?thesis
  proof (cases "\<not> truthy (jwt_token a) \<or> the (jwt_expiry a) \<le> clock w (reads w)")
    case True
    from get_headers_stale [OF assms(2) c True] assms(3) show ?thesis
      by (auto simp: Let_def split: sum.splits body.splits)
  next
    case fresh: False
    with c obtain expiry where "jwt_expiry a = Some expiry" "clock w (reads w) < expiry"
      by auto
    from get_headers_fresh [OF assms(2) _ this] fresh assms(3) show ?thesis by simp
  qed
qed

lemma PortainerAPI_client_ok:
  "truthy k \<or> truthy usr \<and> truthy pw \<Longrightarrow> client_ok (PortainerAPI u k usr pw)"
  by (auto simp: client_ok_def PortainerAPI_def truthy_def)

lemma constructed_client_ok:
  "ContainerRestarter env = Inr s \<Longrightarrow> client_ok (api s)"
  by (auto simp: ContainerRestarter_def Let_def validate_config_def config.extend_def
      container_restarter.fields_def getenv_def
      split: option.splits sum.splits if_splits intro!: PortainerAPI_client_ok)

text \<open>
  Claim C5. With a static API key, \<open>get_headers\<close> returns the \<open>X-API-Key\<close> header and touches
  neither the client nor the world. Without one, it sends the authentication request
  exactly when the cached token is absent or the clock has reached its expiry; on success it
  stores the new token with an expiry seven and a half hours after the clock reading and
  returns the bearer header of that token, and on failure it raises the error of the
  authentication. While the cached token is unexpired it sends nothing and returns the
  bearer header of the cached token; in particular a call that follows a successful call
  before the stored expiry authenticates no more. Every client of a run satisfies
  \<open>client_ok\<close>, and \<open>get_headers\<close> keeps it so.
\<close>

theorem get_headers_policy:
  assumes "client_ok a"
  shows "(if truthy (api_key a)
          then get_headers a w = (Inr [(''X-API-Key'', the (api_key a))], a, w)
          else if \<not> truthy (jwt_token a) \<or> the (jwt_expiry a) \<le> clock w (reads w)
          then get_headers a w =
            (let w0 = (if truthy (jwt_token a) then w\<lparr>reads := Suc (reads w)\<rparr> else w);
                 w1 = w0\<lparr>sent := sent w @ [Post_auth (auth_url a) (username a) (password a)]\<rparr>
             in case net w (length (sent w)) of
                  Inl e \<Rightarrow> (Inl e, a, w1)
                | Inr (JwtBody t) \<Rightarrow>
                    (Inr [(''Authorization'', ''Bearer '' @ t)],
                     a\<lparr>jwt_token := Some t,
                       jwt_expiry := Some (clock w (reads w0) + jwt_lifetime)\<rparr>,
                     w1\<lparr>reads := Suc (reads w0)\<rparr>)
                | Inr _ \<Rightarrow> (Inl RequestFailed, a, w1))
          else get_headers a w
                 = (Inr [(''Authorization'', ''Bearer '' @ the (jwt_token a))], a,
                    w\<lparr>reads := Suc (reads w)\<rparr>)) \<and>
         client_ok (fst (snd (get_headers a w))) \<and>
         (\<forall>h a' w' w2. \<not> truthy (api_key a) \<and> get_headers a w = (Inr h, a', w') \<and>
              truthy (jwt_token a') \<and> clock w2 (reads w2) < the (jwt_expiry a')
              \<longrightarrow> get_headers a' w2 = (Inr h, a', w2\<lparr>reads := Suc (reads w2)\<rparr>))"
proof (intro conjI allI impI)
  show "if truthy (api_key a)
        then get_headers a w = (Inr [(''X-API-Key'', the (api_key a))], a, w)
        else if \<not> truthy (jwt_token a) \<or> the (jwt_expiry a) \<le> clock w (reads w)
        then get_headers a w =
          (let w0 = (if truthy (jwt_token a) then w\<lparr>reads := Suc (reads w)\<rparr> else w);
               w1 = w0\<lparr>sent := sent w @ [Post_auth (auth_url a) (username a) (password a)]\<rparr>
           in case net w (length (sent w)) of
                Inl e \<Rightarrow> (Inl e, a, w1)
              | Inr (JwtBody t) \<Rightarrow>
                  (Inr [(''Authorization'', ''Bearer '' @ t)],
                   a\<lparr>jwt_token := Some t,
                     jwt_expiry := Some (clock w (reads w0) + jwt_lifetime)\<rparr>,
                   w1\<lparr>reads := Suc (reads w0)\<rparr>)
              | Inr _ \<Rightarrow> (Inl RequestFailed, a, w1))
        else get_headers a w
               = (Inr [(''Authorization'', ''Bearer '' @ the (jwt_token a))], a,
                  w\<lparr>reads := Suc (reads w)\<rparr>)"
  proof (cases "truthy (api_key a)")
    case True
    then show ?thesis by (simp add: get_headers_with_key)
  next
    case False
    with assms have c: "truthy (username a)" "truthy (password a)"
      "truthy (jwt_token a) \<longrightarrow> jwt_expiry a \<noteq> None"
      by (simp_all add: client_ok_def)
    show ?thesis
    proof (cases "\<not> truthy (jwt_token a) \<or> the (jwt_expiry a) \<le> clock w (reads w)")
      case True
      from get_headers_stale [OF False c True] False True show ?thesis by simp
    next
      case fresh: False
      with c obtain expiry where "jwt_expiry a = Some expiry" "clock w (reads w) < expiry"
        by auto
      from get_headers_fresh [OF False _ this] fresh False show ?thesis by simp
    qed
  qed
next
  show "client_ok (fst (snd (get_headers a w)))"
    using assms by (rule get_headers_client_ok)
next
  fix h :: headers and a' :: portainer_api and w' w2 :: world
  assume h: "\<not> truthy (api_key a) \<and> get_headers a w = (Inr h, a', w') \<and>
     truthy (jwt_token a') \<and> clock w2 (reads w2) < the (jwt_expiry a')"
  then have g: "get_headers a w = (Inr h, a', w')" by simp
  from get_headers_client_ok [OF assms, of w] g have ok: "client_ok a'" by simp
  from h g have k: "api_key a' = api_key a"
    by (auto simp: get_headers_def authenticate_def split: prod.splits sum.splits if_splits
        body.splits bool.splits)
  from ok h obtain expiry where e: "jwt_expiry a' = Some expiry" by (auto simp: client_ok_def)
  from get_headers_bearer [OF assms _ g] h
  have b: "h = [(''Authorization'', ''Bearer '' @ the (jwt_token a'))]" by simp
  from h k e have "get_headers a' w2
      = (Inr [(''Authorization'', ''Bearer '' @ the (jwt_token a'))], a',
         w2\<lparr>reads := Suc (reads w2)\<rparr>)"
    by (intro get_headers_fresh [where expiry = expiry]) simp_all
  with b show "get_headers a' w2 = (Inr h, a', w2\<lparr>reads := Suc (reads w2)\<rparr>)" by simp
qed

theorem get_headers_policy_witness:
  "client_ok api_password \<and> \<not> truthy (api_key api_password) \<and>
   get_headers api_password (world_jwt t_0300)
     = (Inr [(''Authorization'', ''Bearer tok'')], api_token,
        (world_jwt t_0300)\<lparr>reads := 1,
           sent := [Post_auth ''http://p/api/auth'' (Some ''u'') (Some ''pw'')]\<rparr>) \<and>
   get_headers api_token
       ((world_jwt t_0300)\<lparr>reads := 1,
           sent := [Post_auth ''http://p/api/auth'' (Some ''u'') (Some ''pw'')]\<rparr>)
     = (Inr [(''Authorization'', ''Bearer tok'')], api_token,
        (world_jwt t_0300)\<lparr>reads := 2,
           sent := [Post_auth ''http://p/api/auth'' (Some ''u'') (Some ''pw'')]\<rparr>) \<and>
   sent (snd (snd (get_headers api_token (world_jwt (t_0300 + jwt_lifetime)))))
     = [Post_auth ''http://p/api/auth'' (Some ''u'') (Some ''pw'')] \<and>
   get_headers (api s_ready) (world_jwt t_0300)
     = (Inr [(''X-API-Key'', ''k'')], api s_ready, world_jwt t_0300)"
proof -
  have ok: "client_ok api_password" "client_ok api_token" "client_ok (api s_ready)"
    by (simp_all add: client_ok_def api_token_def api_password_def s_ready_def PortainerAPI_def
        truthy_def)
  have f: "\<not> truthy (api_key api_password)" "\<not> truthy (api_key api_token)"
    "truthy (api_key (api s_ready))" "\<not> truthy (jwt_token api_password)"
    "truthy (jwt_token api_token)" "jwt_expiry api_token = Some (t_0300 + jwt_lifetime)"
    by (simp_all add: api_token_def api_password_def s_ready_def PortainerAPI_def truthy_def)
  have first: "get_headers api_password (world_jwt t_0300)
     = (Inr [(''Authorization'', ''Bearer tok'')], api_token,
        (world_jwt t_0300)\<lparr>reads := 1,
           sent := [Post_auth ''http://p/api/auth'' (Some ''u'') (Some ''pw'')]\<rparr>)"
    using get_headers_policy [OF ok(1), of "world_jwt t_0300"] f
    by (simp add: api_token_def api_password_def PortainerAPI_def world_jwt_def auth_url_def
        rstrip_slash_def Let_def)
  have second: "get_headers api_token
       ((world_jwt t_0300)\<lparr>reads := 1,
           sent := [Post_auth ''http://p/api/auth'' (Some ''u'') (Some ''pw'')]\<rparr>)
     = (Inr [(''Authorization'', ''Bearer tok'')], api_token,
        (world_jwt t_0300)\<lparr>reads := 2,
           sent := [Post_auth ''http://p/api/auth'' (Some ''u'') (Some ''pw'')]\<rparr>)"
    using get_headers_policy [OF ok(2), of "(world_jwt t_0300)\<lparr>reads := 1,
           sent := [Post_auth ''http://p/api/auth'' (Some ''u'') (Some ''pw'')]\<rparr>"] f
    by (simp add: world_jwt_def jwt_lifetime_def api_token_def)
  have expired: "sent (snd (snd (get_headers api_token (world_jwt (t_0300 + jwt_lifetime)))))
     = [Post_auth ''http://p/api/auth'' (Some ''u'') (Some ''pw'')]"
    using get_headers_policy [OF ok(2), of "world_jwt (t_0300 + jwt_lifetime)"] f
    by (simp add: world_jwt_def Let_def api_token_def api_password_def PortainerAPI_def
        auth_url_def rstrip_slash_def)
  have key: "get_headers (api s_ready) (world_jwt t_0300)
     = (Inr [(''X-API-Key'', ''k'')], api s_ready, world_jwt t_0300)"
    using get_headers_policy [OF ok(3), of "world_jwt t_0300"] f
    by (simp add: s_ready_def PortainerAPI_def)
  from ok f first second expired key show ?thesis by simp
qed

section \<open>Clearing and re-resolving the identifier\<close>

lemma try_block_keeps_container_id:
  assumes "try_block s w = (Inr u, s1, w1)" and "truthy (container_id s)"
  shows "container_id s1 = container_id s"
proof -
  from assms have c: "check_and_restart s w = (Inr u, s1, w1)"
    by (simp add: try_block_def resolve_def)
  from check_and_restart_frame [OF c] show ?thesis by simp
qed

lemma try_block_resolving:
  "container_id s = None \<Longrightarrow>
   try_block s w =
     (case get_container_id (api s) (endpoint_id s) (the (container_name s)) w of
        (Inl e, a1, w1) \<Rightarrow> (Inl e, s\<lparr>api := a1\<rparr>, w1)
      | (Inr cid, a1, w1) \<Rightarrow> check_and_restart (s\<lparr>api := a1, container_id := Some cid\<rparr>) w1)"
  by (simp add: try_block_def resolve_def truthy_def split: prod.splits sum.splits)

lemma tick_resolving_fails:
  "tick s_resolving (world_first_fails t_0300) =
     (None, s_resolving,
      (world_first_fails t_0300)
        \<lparr>sent := [Get_containers ''http://p/api/endpoints/1/docker/containers/json?all=1''
                    [(''X-API-Key'', ''k'')]]\<rparr>)"
  by (simp add: pass_defs example_defs strptime_0300 dt_t_0300 dt_1900_3_0)

lemma tick_after_failure:
  "tick s_resolving
     ((world_first_fails t_0300)
        \<lparr>reads := 1,
         sent := [Post_restart ''http://p/api/endpoints/1/docker/containers/abc123/restart''
                    [(''X-API-Key'', ''k'')]]\<rparr>) =
     (None, s_ready\<lparr>last_restart_date := Some 738000\<rparr>,
      (world_first_fails t_0300)
        \<lparr>reads := 3,
         sent := [Post_restart ''http://p/api/endpoints/1/docker/containers/abc123/restart''
                    [(''X-API-Key'', ''k'')],
                  Get_containers ''http://p/api/endpoints/1/docker/containers/json?all=1''
                    [(''X-API-Key'', ''k'')],
                  Post_restart ''http://p/api/endpoints/1/docker/containers/abc123/restart''
                    [(''X-API-Key'', ''k'')]]\<rparr>)"
  by (simp add: pass_defs example_defs strptime_0300 dt_t_0300 dt_1900_3_0)

lemma tick_ready_ok:
  "tick s_ready (world_ok t_0300) =
     (None, s_ready\<lparr>last_restart_date := Some 738000\<rparr>,
      (world_ok t_0300)
        \<lparr>reads := 2,
         sent := [Post_restart ''http://p/api/endpoints/1/docker/containers/abc123/restart''
                    [(''X-API-Key'', ''k'')]]\<rparr>)"
  by (simp add: pass_defs example_defs strptime_0300 dt_t_0300 dt_1900_3_0)

text \<open>
  Claim C6. When an \<^verbatim>\<open>Exception\<close> is raised in a pass, by the lookup or by the restart call,
  the pass ends with the cached identifier cleared and the loop goes on. A pass without
  error ends with the identifier set, and leaves an identifier that was cached as it was.
  A pass that starts without identifier, as the pass after an error does, starts with the
  lookup of the name: it ends with the error of the lookup, or goes on with the identifier
  that the lookup returned.
\<close>

theorem error_clears_container_id:
  "(\<forall>e s1 w1. try_block s w = (Inl e, s1, w1) \<and> is_Exception e \<longrightarrow>
       tick s w = (None, s1\<lparr>container_id := None\<rparr>, w1)) \<and>
   (\<forall>u s1 w1. try_block s w = (Inr u, s1, w1) \<longrightarrow>
       tick s w = (None, s1, w1) \<and> container_id s1 \<noteq> None \<and>
       (truthy (container_id s) \<longrightarrow> container_id s1 = container_id s)) \<and>
   (container_id s = None \<longrightarrow>
       try_block s w =
         (case get_container_id (api s) (endpoint_id s) (the (container_name s)) w of
            (Inl e, a1, w1) \<Rightarrow> (Inl e, s\<lparr>api := a1\<rparr>, w1)
          | (Inr cid, a1, w1) \<Rightarrow>
              check_and_restart (s\<lparr>api := a1, container_id := Some cid\<rparr>) w1))"
  by (auto simp: tick_def try_block_resolving
      dest: try_block_container_id try_block_keeps_container_id)


lemma try_block_ready_fails_at:
  "try_block s_ready (world_first_fails t_0300) =
     (Inl RequestFailed, s_ready,
      (world_first_fails t_0300)
        \<lparr>reads := 1,
         sent := [Post_restart ''http://p/api/endpoints/1/docker/containers/abc123/restart''
                    [(''X-API-Key'', ''k'')]]\<rparr>)"
  by (simp add: pass_defs example_defs strptime_0300 dt_t_0300 dt_1900_3_0)

lemma try_block_resolving_fails_at:
  "try_block s_resolving (world_first_fails t_0300) =
     (Inl RequestFailed, s_resolving,
      (world_first_fails t_0300)
        \<lparr>sent := [Get_containers ''http://p/api/endpoints/1/docker/containers/json?all=1''
                    [(''X-API-Key'', ''k'')]]\<rparr>)"
  by (simp add: pass_defs example_defs strptime_0300 dt_t_0300 dt_1900_3_0)

lemma get_container_id_after_failure:
  "get_container_id (api s_resolving) (endpoint_id s_resolving)
     (the (container_name s_resolving))
     ((world_first_fails t_0300)
        \<lparr>reads := 1,
         sent := [Post_restart ''http://p/api/endpoints/1/docker/containers/abc123/restart''
                    [(''X-API-Key'', ''k'')]]\<rparr>) =
     (Inr ''abc123'', api s_resolving,
      (world_first_fails t_0300)
        \<lparr>reads := 1,
         sent := [Post_restart ''http://p/api/endpoints/1/docker/containers/abc123/restart''
                    [(''X-API-Key'', ''k'')],
                  Get_containers ''http://p/api/endpoints/1/docker/containers/json?all=1''
                    [(''X-API-Key'', ''k'')]]\<rparr>)"
  by (simp add: pass_defs example_defs)

lemma try_block_ready_ok_at:
  "try_block s_ready (world_ok t_0300) =
     (Inr (), s_ready\<lparr>last_restart_date := Some 738000\<rparr>,
      (world_ok t_0300)
        \<lparr>reads := 2,
         sent := [Post_restart ''http://p/api/endpoints/1/docker/containers/abc123/restart''
                    [(''X-API-Key'', ''k'')]]\<rparr>)"
  by (simp add: pass_defs example_defs strptime_0300 dt_t_0300 dt_1900_3_0)

theorem error_clears_container_id_witness:
  "is_Exception RequestFailed \<and>
   tick s_ready (world_first_fails t_0300) =
     (None, s_resolving,
      (world_first_fails t_0300)
        \<lparr>reads := 1,
         sent := [Post_restart ''http://p/api/endpoints/1/docker/containers/abc123/restart''
                    [(''X-API-Key'', ''k'')]]\<rparr>) \<and>
   tick s_resolving (world_first_fails t_0300) =
     (None, s_resolving,
      (world_first_fails t_0300)
        \<lparr>sent := [Get_containers ''http://p/api/endpoints/1/docker/containers/json?all=1''
                    [(''X-API-Key'', ''k'')]]\<rparr>) \<and>
   container_id s_resolving = None \<and>
   try_block s_resolving
     ((world_first_fails t_0300)
        \<lparr>reads := 1,
         sent := [Post_restart ''http://p/api/endpoints/1/docker/containers/abc123/restart''
                    [(''X-API-Key'', ''k'')]]\<rparr>) =
     check_and_restart s_ready
       ((world_first_fails t_0300)
          \<lparr>reads := 1,
           sent := [Post_restart ''http://p/api/endpoints/1/docker/containers/abc123/restart''
                      [(''X-API-Key'', ''k'')],
                    Get_containers ''http://p/api/endpoints/1/docker/containers/json?all=1''
                      [(''X-API-Key'', ''k'')]]\<rparr>) \<and>
   truthy (container_id s_ready) \<and>
   tick s_ready (world_ok t_0300) =
     (None, s_ready\<lparr>last_restart_date := Some 738000\<rparr>,
      (world_ok t_0300)
        \<lparr>reads := 2,
         sent := [Post_restart ''http://p/api/endpoints/1/docker/containers/abc123/restart''
                    [(''X-API-Key'', ''k'')]]\<rparr>) \<and>
   container_id (s_ready\<lparr>last_restart_date := Some 738000\<rparr>) = container_id s_ready"
proof -
  have e: "is_Exception RequestFailed" by (simp add: is_Exception_def)
  have n: "container_id s_resolving = None" by (simp add: s_resolving_def)
  have t: "truthy (container_id s_ready)" by (simp add: s_ready_def truthy_def)
  have r: "s_ready\<lparr>container_id := None\<rparr> = s_resolving" by (simp add: s_resolving_def)
  have c: "s_resolving\<lparr>api := api s_resolving, container_id := Some ''abc123''\<rparr> = s_ready"
    by (simp add: s_resolving_def s_ready_def)
  from error_clears_container_id [of s_ready "world_first_fails t_0300"]
    try_block_ready_fails_at e r
  have 1: "tick s_ready (world_first_fails t_0300) =
     (None, s_resolving,
      (world_first_fails t_0300)
        \<lparr>reads := 1,
         sent := [Post_restart ''http://p/api/endpoints/1/docker/containers/abc123/restart''
                    [(''X-API-Key'', ''k'')]]\<rparr>)"
    by simp
  from error_clears_container_id [of s_resolving "world_first_fails t_0300"]
    try_block_resolving_fails_at e n
  have 2: "tick s_resolving (world_first_fails t_0300) =
     (None, s_resolving,
      (world_first_fails t_0300)
        \<lparr>sent := [Get_containers ''http://p/api/endpoints/1/docker/containers/json?all=1''
                    [(''X-API-Key'', ''k'')]]\<rparr>)"
    by simp
  from error_clears_container_id [of s_resolving
      "(world_first_fails t_0300)
        \<lparr>reads := 1,
         sent := [Post_restart ''http://p/api/endpoints/1/docker/containers/abc123/restart''
                    [(''X-API-Key'', ''k'')]]\<rparr>"]
    n get_container_id_after_failure c
  have 3: "try_block s_resolving
     ((world_first_fails t_0300)
        \<lparr>reads := 1,
         sent := [Post_restart ''http://p/api/endpoints/1/docker/containers/abc123/restart''
                    [(''X-API-Key'', ''k'')]]\<rparr>) =
     check_and_restart s_ready
       ((world_first_fails t_0300)
          \<lparr>reads := 1,
           sent := [Post_restart ''http://p/api/endpoints/1/docker/containers/abc123/restart''
                      [(''X-API-Key'', ''k'')],
                    Get_containers ''http://p/api/endpoints/1/docker/containers/json?all=1''
                      [(''X-API-Key'', ''k'')]]\<rparr>)"
    by simp
  from error_clears_container_id [of s_ready "world_ok t_0300"] try_block_ready_ok_at t
  have 4: "tick s_ready (world_ok t_0300) =
     (None, s_ready\<lparr>last_restart_date := Some 738000\<rparr>,
      (world_ok t_0300)
        \<lparr>reads := 2,
         sent := [Post_restart ''http://p/api/endpoints/1/docker/containers/abc123/restart''
                    [(''X-API-Key'', ''k'')]]\<rparr>) \<and>
     container_id (s_ready\<lparr>last_restart_date := Some 738000\<rparr>) = container_id s_ready"
    by simp
  from e n t 1 2 3 4 show ?thesis by simp
qed

section \<open>One restart a day\<close>










section \<open>A failed restart is tried again\<close>

lemma resolve_config:
  "resolve s w = (r, s0, w0) \<Longrightarrow>
   endpoint_id s0 = endpoint_id s \<and> container_name s0 = container_name s \<and>
   restart_time s0 = restart_time s \<and> last_restart_date s0 = last_restart_date s"
  by (auto simp: resolve_def split: if_splits prod.splits sum.splits)

lemma check_and_restart_at_restart_time:
  assumes "strptime_HM (restart_time s) = Some target_time"
      and "dt_hour (clock w (reads w)) = dt_hour target_time"
      and "dt_minute (clock w (reads w)) = dt_minute target_time"
      and "last_restart_date s \<noteq> Some (dt_date (clock w (reads w)))"
  shows "check_and_restart s w =
           (case restart_container (api s) (endpoint_id s) (the (container_id s))
                   (w\<lparr>reads := Suc (reads w)\<rparr>) of
              (Inl e, a1, w1) \<Rightarrow> (Inl e, s\<lparr>api := a1\<rparr>, w1)
            | (Inr x, a1, w1) \<Rightarrow>
                (Inr (), s\<lparr>api := a1, last_restart_date := Some (dt_date (clock w1 (reads w1)))\<rparr>,
                 w1\<lparr>reads := Suc (reads w1)\<rparr>))"
  using assms
  by (simp add: check_and_restart_def should_restart_def now_def split: prod.splits sum.splits)

text \<open>
  Claim C8. Take a pass in which the identifier is resolved, the clock read by the check
  shows the hour and the minute of the restart time with no restart recorded for its date,
  and the restart call raises an \<^verbatim>\<open>Exception\<close>. The pass ends with the identifier cleared
  and the date of the last restart as it was, and the loop goes on. In every later pass
  from that state whose lookup succeeds and whose check reads the restart time again, on a
  date that is not recorded, the restart call is made again, with the identifier that the
  lookup returned; the date is recorded when this call returns, and left as it was when it
  raises.
\<close>

theorem failed_restart_is_retried:
  assumes "strptime_HM (restart_time s) = Some target_time"
      and "resolve s w = (Inr u, s0, w0)"
      and "dt_hour (clock w0 (reads w0)) = dt_hour target_time"
      and "dt_minute (clock w0 (reads w0)) = dt_minute target_time"
      and "last_restart_date s \<noteq> Some (dt_date (clock w0 (reads w0)))"
      and "restart_container (api s0) (endpoint_id s) (the (container_id s0))
             (w0\<lparr>reads := Suc (reads w0)\<rparr>) = (Inl e, a1, w1)"
      and "is_Exception e"
  shows "tick s w = (None, s0\<lparr>api := a1, container_id := None\<rparr>, w1) \<and>
         last_restart_date (s0\<lparr>api := a1, container_id := None\<rparr>) = last_restart_date s \<and>
         (\<forall>w' cid a2 w2.
            get_container_id a1 (endpoint_id s) (the (container_name s)) w' = (Inr cid, a2, w2) \<and>
            dt_hour (clock w2 (reads w2)) = dt_hour target_time \<and>
            dt_minute (clock w2 (reads w2)) = dt_minute target_time \<and>
            last_restart_date s \<noteq> Some (dt_date (clock w2 (reads w2))) \<longrightarrow>
            try_block (s0\<lparr>api := a1, container_id := None\<rparr>) w' =
              (case restart_container a2 (endpoint_id s) cid (w2\<lparr>reads := Suc (reads w2)\<rparr>) of
                 (Inl e', a3, w3) \<Rightarrow>
                   (Inl e', s0\<lparr>api := a3, container_id := Some cid\<rparr>, w3)
               | (Inr x, a3, w3) \<Rightarrow>
                   (Inr (),
                    s0\<lparr>api := a3, container_id := Some cid,
                       last_restart_date := Some (dt_date (clock w3 (reads w3)))\<rparr>,
                    w3\<lparr>reads := Suc (reads w3)\<rparr>)))"
proof -
  note c = resolve_config [OF assms(2)]
  from c assms(1,3,4,5)
  have "check_and_restart s0 w0 =
           (case restart_container (api s0) (endpoint_id s0) (the (container_id s0))
                   (w0\<lparr>reads := Suc (reads w0)\<rparr>) of
              (Inl e, a1, w1) \<Rightarrow> (Inl e, s0\<lparr>api := a1\<rparr>, w1)
            | (Inr x, a1, w1) \<Rightarrow>
                (Inr (), s0\<lparr>api := a1, last_restart_date := Some (dt_date (clock w1 (reads w1)))\<rparr>,
                 w1\<lparr>reads := Suc (reads w1)\<rparr>))"
    by (intro check_and_restart_at_restart_time [of s0 target_time w0]) simp_all
  with c assms(6) have "check_and_restart s0 w0 = (Inl e, s0\<lparr>api := a1\<rparr>, w1)" by simp
  with assms(2,7) have 1: "tick s w = (None, s0\<lparr>api := a1, container_id := None\<rparr>, w1)"
    by (simp add: tick_def try_block_def)
  have 2: "last_restart_date (s0\<lparr>api := a1, container_id := None\<rparr>) = last_restart_date s"
    using c by simp
  have 3: "try_block (s0\<lparr>api := a1, container_id := None\<rparr>) w' =
              (case restart_container a2 (endpoint_id s) cid (w2\<lparr>reads := Suc (reads w2)\<rparr>) of
                 (Inl e', a3, w3) \<Rightarrow>
                   (Inl e', s0\<lparr>api := a3, container_id := Some cid\<rparr>, w3)
               | (Inr x, a3, w3) \<Rightarrow>
                   (Inr (),
                    s0\<lparr>api := a3, container_id := Some cid,
                       last_restart_date := Some (dt_date (clock w3 (reads w3)))\<rparr>,
                    w3\<lparr>reads := Suc (reads w3)\<rparr>))"
    if g: "get_container_id a1 (endpoint_id s) (the (container_name s)) w' = (Inr cid, a2, w2)"
      and h: "dt_hour (clock w2 (reads w2)) = dt_hour target_time"
        "dt_minute (clock w2 (reads w2)) = dt_minute target_time"
        "last_restart_date s \<noteq> Some (dt_date (clock w2 (reads w2)))"
    for w' cid a2 w2
  proof -
    from c g have t: "try_block (s0\<lparr>api := a1, container_id := None\<rparr>) w' =
        check_and_restart (s0\<lparr>api := a2, container_id := Some cid\<rparr>) w2"
      by (simp add: try_block_def resolve_def truthy_def)
    from c assms(1) h
    have "check_and_restart (s0\<lparr>api := a2, container_id := Some cid\<rparr>) w2 =
           (case restart_container (api (s0\<lparr>api := a2, container_id := Some cid\<rparr>))
                   (endpoint_id (s0\<lparr>api := a2, container_id := Some cid\<rparr>))
                   (the (container_id (s0\<lparr>api := a2, container_id := Some cid\<rparr>)))
                   (w2\<lparr>reads := Suc (reads w2)\<rparr>) of
              (Inl e, a1, w1) \<Rightarrow> (Inl e, s0\<lparr>api := a2, container_id := Some cid\<rparr>\<lparr>api := a1\<rparr>, w1)
            | (Inr x, a1, w1) \<Rightarrow>
                (Inr (), s0\<lparr>api := a2, container_id := Some cid\<rparr>
                   \<lparr>api := a1, last_restart_date := Some (dt_date (clock w1 (reads w1)))\<rparr>,
                 w1\<lparr>reads := Suc (reads w1)\<rparr>))"
      by (intro check_and_restart_at_restart_time [of _ target_time]) simp_all
    with t c show ?thesis by (simp split: prod.splits sum.splits)
  qed
  from 1 2 3 show ?thesis by blast
qed


lemma resolve_ready:
  "resolve s_ready w = (Inr (), s_ready, w)"
  by (simp add: resolve_def s_ready_def truthy_def)

lemma restart_container_first_fails:
  "restart_container (api s_ready) (endpoint_id s_ready) (the (container_id s_ready))
     ((world_first_fails t_0300)\<lparr>reads := Suc (reads (world_first_fails t_0300))\<rparr>) =
     (Inl RequestFailed, api s_ready,
      ((world_first_fails t_0300)
        \<lparr>reads := 1,
         sent := [Post_restart ''http://p/api/endpoints/1/docker/containers/abc123/restart''
                    [(''X-API-Key'', ''k'')]]\<rparr>))"
  by (simp add: pass_defs example_defs)

lemma get_container_id_second:
  "get_container_id (api s_ready) (endpoint_id s_ready) (the (container_name s_ready))
     ((world_first_fails t_0300)
        \<lparr>reads := 1,
         sent := [Post_restart ''http://p/api/endpoints/1/docker/containers/abc123/restart''
                    [(''X-API-Key'', ''k'')]]\<rparr>) =
     (Inr ''abc123'', api s_ready,
      ((world_first_fails t_0300)
        \<lparr>reads := 1,
         sent := [Post_restart ''http://p/api/endpoints/1/docker/containers/abc123/restart''
                    [(''X-API-Key'', ''k'')],
                  Get_containers ''http://p/api/endpoints/1/docker/containers/json?all=1''
                    [(''X-API-Key'', ''k'')]]\<rparr>))"
  by (simp add: pass_defs example_defs)

lemma restart_container_second:
  "restart_container (api s_ready) (endpoint_id s_ready) ''abc123''
     (((world_first_fails t_0300)
        \<lparr>reads := 1,
         sent := [Post_restart ''http://p/api/endpoints/1/docker/containers/abc123/restart''
                    [(''X-API-Key'', ''k'')],
                  Get_containers ''http://p/api/endpoints/1/docker/containers/json?all=1''
                    [(''X-API-Key'', ''k'')]]\<rparr>)\<lparr>reads := Suc (reads ((world_first_fails t_0300)
        \<lparr>reads := 1,
         sent := [Post_restart ''http://p/api/endpoints/1/docker/containers/abc123/restart''
                    [(''X-API-Key'', ''k'')],
                  Get_containers ''http://p/api/endpoints/1/docker/containers/json?all=1''
                    [(''X-API-Key'', ''k'')]]\<rparr>))\<rparr>) =
     (Inr True, api s_ready,
      ((world_first_fails t_0300)
        \<lparr>reads := 2,
         sent := [Post_restart ''http://p/api/endpoints/1/docker/containers/abc123/restart''
                    [(''X-API-Key'', ''k'')],
                  Get_containers ''http://p/api/endpoints/1/docker/containers/json?all=1''
                    [(''X-API-Key'', ''k'')],
                  Post_restart ''http://p/api/endpoints/1/docker/containers/abc123/restart''
                    [(''X-API-Key'', ''k'')]]\<rparr>))"
  by (simp add: pass_defs example_defs)

theorem failed_restart_is_retried_witness:
  "strptime_HM (restart_time s_ready) = Some (datetime_1900 3 0) \<and>
   resolve s_ready (world_first_fails t_0300) = (Inr (), s_ready, (world_first_fails t_0300)) \<and>
   (\<forall>k. dt_hour (clock (world_first_fails t_0300) k) = dt_hour (datetime_1900 3 0) \<and>
        dt_minute (clock (world_first_fails t_0300) k) = dt_minute (datetime_1900 3 0) \<and>
        dt_date (clock (world_first_fails t_0300) k) = 738000) \<and>
   last_restart_date s_ready = None \<and>
   is_Exception RequestFailed \<and>
   tick s_ready (world_first_fails t_0300) =
     (None, s_resolving,
      ((world_first_fails t_0300)
        \<lparr>reads := 1,
         sent := [Post_restart ''http://p/api/endpoints/1/docker/containers/abc123/restart''
                    [(''X-API-Key'', ''k'')]]\<rparr>)) \<and>
   last_restart_date s_resolving = None \<and>
   try_block s_resolving
     ((world_first_fails t_0300)
        \<lparr>reads := 1,
         sent := [Post_restart ''http://p/api/endpoints/1/docker/containers/abc123/restart''
                    [(''X-API-Key'', ''k'')]]\<rparr>) =
     (Inr (), s_ready\<lparr>last_restart_date := Some 738000\<rparr>,
      ((world_first_fails t_0300)
        \<lparr>reads := 3,
         sent := [Post_restart ''http://p/api/endpoints/1/docker/containers/abc123/restart''
                    [(''X-API-Key'', ''k'')],
                  Get_containers ''http://p/api/endpoints/1/docker/containers/json?all=1''
                    [(''X-API-Key'', ''k'')],
                  Post_restart ''http://p/api/endpoints/1/docker/containers/abc123/restart''
                    [(''X-API-Key'', ''k'')]]\<rparr>))"
proof -
  have p: "strptime_HM (restart_time s_ready) = Some (datetime_1900 3 0)"
    by (simp add: s_ready_def strptime_0300)
  have c: "\<forall>k. dt_hour (clock (world_first_fails t_0300) k) = dt_hour (datetime_1900 3 0) \<and>
        dt_minute (clock (world_first_fails t_0300) k) = dt_minute (datetime_1900 3 0) \<and>
        dt_date (clock (world_first_fails t_0300) k) = 738000"
    by (simp add: world_first_fails_def dt_t_0300 dt_1900_3_0)
  have l: "last_restart_date s_ready = None" by (simp add: s_ready_def)
  have l': "last_restart_date s_resolving = None" by (simp add: s_ready_def s_resolving_def)
  have e: "is_Exception RequestFailed" by (simp add: is_Exception_def)
  have r: "s_ready\<lparr>api := api s_ready, container_id := None\<rparr> = s_resolving"
    by (simp add: s_resolving_def)
  have i: "s_ready\<lparr>api := api s_ready, container_id := Some ''abc123'',
             last_restart_date := Some 738000\<rparr> = s_ready\<lparr>last_restart_date := Some 738000\<rparr>"
    by (simp add: s_ready_def)
  have h: "dt_hour (clock (world_first_fails t_0300) (reads (world_first_fails t_0300))) = dt_hour (datetime_1900 3 0)"
      "dt_minute (clock (world_first_fails t_0300) (reads (world_first_fails t_0300))) = dt_minute (datetime_1900 3 0)"
      "last_restart_date s_ready \<noteq> Some (dt_date (clock (world_first_fails t_0300) (reads (world_first_fails t_0300))))"
    using c l by simp_all
  have c2: "clock ((world_first_fails t_0300)
        \<lparr>reads := 1,
         sent := [Post_restart ''http://p/api/endpoints/1/docker/containers/abc123/restart''
                    [(''X-API-Key'', ''k'')],
                  Get_containers ''http://p/api/endpoints/1/docker/containers/json?all=1''
                    [(''X-API-Key'', ''k'')]]\<rparr>) = clock (world_first_fails t_0300)"
     "clock ((world_first_fails t_0300)
        \<lparr>reads := 2,
         sent := [Post_restart ''http://p/api/endpoints/1/docker/containers/abc123/restart''
                    [(''X-API-Key'', ''k'')],
                  Get_containers ''http://p/api/endpoints/1/docker/containers/json?all=1''
                    [(''X-API-Key'', ''k'')],
                  Post_restart ''http://p/api/endpoints/1/docker/containers/abc123/restart''
                    [(''X-API-Key'', ''k'')]]\<rparr>) = clock (world_first_fails t_0300)"
    by simp_all
  have h2: "dt_hour (clock ((world_first_fails t_0300)
        \<lparr>reads := 1,
         sent := [Post_restart ''http://p/api/endpoints/1/docker/containers/abc123/restart''
                    [(''X-API-Key'', ''k'')],
                  Get_containers ''http://p/api/endpoints/1/docker/containers/json?all=1''
                    [(''X-API-Key'', ''k'')]]\<rparr>) (reads ((world_first_fails t_0300)
        \<lparr>reads := 1,
         sent := [Post_restart ''http://p/api/endpoints/1/docker/containers/abc123/restart''
                    [(''X-API-Key'', ''k'')],
                  Get_containers ''http://p/api/endpoints/1/docker/containers/json?all=1''
                    [(''X-API-Key'', ''k'')]]\<rparr>))) = dt_hour (datetime_1900 3 0)"
      "dt_minute (clock ((world_first_fails t_0300)
        \<lparr>reads := 1,
         sent := [Post_restart ''http://p/api/endpoints/1/docker/containers/abc123/restart''
                    [(''X-API-Key'', ''k'')],
                  Get_containers ''http://p/api/endpoints/1/docker/containers/json?all=1''
                    [(''X-API-Key'', ''k'')]]\<rparr>) (reads ((world_first_fails t_0300)
        \<lparr>reads := 1,
         sent := [Post_restart ''http://p/api/endpoints/1/docker/containers/abc123/restart''
                    [(''X-API-Key'', ''k'')],
                  Get_containers ''http://p/api/endpoints/1/docker/containers/json?all=1''
                    [(''X-API-Key'', ''k'')]]\<rparr>))) = dt_minute (datetime_1900 3 0)"
      "last_restart_date s_ready \<noteq> Some (dt_date (clock ((world_first_fails t_0300)
        \<lparr>reads := 1,
         sent := [Post_restart ''http://p/api/endpoints/1/docker/containers/abc123/restart''
                    [(''X-API-Key'', ''k'')],
                  Get_containers ''http://p/api/endpoints/1/docker/containers/json?all=1''
                    [(''X-API-Key'', ''k'')]]\<rparr>) (reads ((world_first_fails t_0300)
        \<lparr>reads := 1,
         sent := [Post_restart ''http://p/api/endpoints/1/docker/containers/abc123/restart''
                    [(''X-API-Key'', ''k'')],
                  Get_containers ''http://p/api/endpoints/1/docker/containers/json?all=1''
                    [(''X-API-Key'', ''k'')]]\<rparr>))))"
    unfolding c2 using c l by simp_all
  note T = failed_restart_is_retried [OF p resolve_ready h restart_container_first_fails e]
  from T r have 1: "tick s_ready (world_first_fails t_0300) =
     (None, s_resolving,
      ((world_first_fails t_0300)
        \<lparr>reads := 1,
         sent := [Post_restart ''http://p/api/endpoints/1/docker/containers/abc123/restart''
                    [(''X-API-Key'', ''k'')]]\<rparr>))"
    by simp
  from T have "get_container_id (api s_ready) (endpoint_id s_ready) (the (container_name s_ready))
       ((world_first_fails t_0300)
        \<lparr>reads := 1,
         sent := [Post_restart ''http://p/api/endpoints/1/docker/containers/abc123/restart''
                    [(''X-API-Key'', ''k'')]]\<rparr>) =
       (Inr ''abc123'', api s_ready, ((world_first_fails t_0300)
        \<lparr>reads := 1,
         sent := [Post_restart ''http://p/api/endpoints/1/docker/containers/abc123/restart''
                    [(''X-API-Key'', ''k'')],
                  Get_containers ''http://p/api/endpoints/1/docker/containers/json?all=1''
                    [(''X-API-Key'', ''k'')]]\<rparr>)) \<and>
      dt_hour (clock ((world_first_fails t_0300)
        \<lparr>reads := 1,
         sent := [Post_restart ''http://p/api/endpoints/1/docker/containers/abc123/restart''
                    [(''X-API-Key'', ''k'')],
                  Get_containers ''http://p/api/endpoints/1/docker/containers/json?all=1''
                    [(''X-API-Key'', ''k'')]]\<rparr>) (reads ((world_first_fails t_0300)
        \<lparr>reads := 1,
         sent := [Post_restart ''http://p/api/endpoints/1/docker/containers/abc123/restart''
                    [(''X-API-Key'', ''k'')],
                  Get_containers ''http://p/api/endpoints/1/docker/containers/json?all=1''
                    [(''X-API-Key'', ''k'')]]\<rparr>))) = dt_hour (datetime_1900 3 0) \<and>
      dt_minute (clock ((world_first_fails t_0300)
        \<lparr>reads := 1,
         sent := [Post_restart ''http://p/api/endpoints/1/docker/containers/abc123/restart''
                    [(''X-API-Key'', ''k'')],
                  Get_containers ''http://p/api/endpoints/1/docker/containers/json?all=1''
                    [(''X-API-Key'', ''k'')]]\<rparr>) (reads ((world_first_fails t_0300)
        \<lparr>reads := 1,
         sent := [Post_restart ''http://p/api/endpoints/1/docker/containers/abc123/restart''
                    [(''X-API-Key'', ''k'')],
                  Get_containers ''http://p/api/endpoints/1/docker/containers/json?all=1''
                    [(''X-API-Key'', ''k'')]]\<rparr>))) = dt_minute (datetime_1900 3 0) \<and>
      last_restart_date s_ready \<noteq> Some (dt_date (clock ((world_first_fails t_0300)
        \<lparr>reads := 1,
         sent := [Post_restart ''http://p/api/endpoints/1/docker/containers/abc123/restart''
                    [(''X-API-Key'', ''k'')],
                  Get_containers ''http://p/api/endpoints/1/docker/containers/json?all=1''
                    [(''X-API-Key'', ''k'')]]\<rparr>) (reads ((world_first_fails t_0300)
        \<lparr>reads := 1,
         sent := [Post_restart ''http://p/api/endpoints/1/docker/containers/abc123/restart''
                    [(''X-API-Key'', ''k'')],
                  Get_containers ''http://p/api/endpoints/1/docker/containers/json?all=1''
                    [(''X-API-Key'', ''k'')]]\<rparr>)))) \<longrightarrow>
      try_block (s_ready\<lparr>api := api s_ready, container_id := None\<rparr>) ((world_first_fails t_0300)
        \<lparr>reads := 1,
         sent := [Post_restart ''http://p/api/endpoints/1/docker/containers/abc123/restart''
                    [(''X-API-Key'', ''k'')]]\<rparr>) =
        (case restart_container (api s_ready) (endpoint_id s_ready) ''abc123''
                (((world_first_fails t_0300)
        \<lparr>reads := 1,
         sent := [Post_restart ''http://p/api/endpoints/1/docker/containers/abc123/restart''
                    [(''X-API-Key'', ''k'')],
                  Get_containers ''http://p/api/endpoints/1/docker/containers/json?all=1''
                    [(''X-API-Key'', ''k'')]]\<rparr>)\<lparr>reads := Suc (reads ((world_first_fails t_0300)
        \<lparr>reads := 1,
         sent := [Post_restart ''http://p/api/endpoints/1/docker/containers/abc123/restart''
                    [(''X-API-Key'', ''k'')],
                  Get_containers ''http://p/api/endpoints/1/docker/containers/json?all=1''
                    [(''X-API-Key'', ''k'')]]\<rparr>))\<rparr>) of
           (Inl e', a3, w3) \<Rightarrow>
             (Inl e', s_ready\<lparr>api := a3, container_id := Some ''abc123''\<rparr>, w3)
         | (Inr x, a3, w3) \<Rightarrow>
             (Inr (),
              s_ready\<lparr>api := a3, container_id := Some ''abc123'',
                 last_restart_date := Some (dt_date (clock w3 (reads w3)))\<rparr>,
              w3\<lparr>reads := Suc (reads w3)\<rparr>))"
    by blast
  with get_container_id_second h2
  have "try_block (s_ready\<lparr>api := api s_ready, container_id := None\<rparr>) ((world_first_fails t_0300)
        \<lparr>reads := 1,
         sent := [Post_restart ''http://p/api/endpoints/1/docker/containers/abc123/restart''
                    [(''X-API-Key'', ''k'')]]\<rparr>) =
        (case restart_container (api s_ready) (endpoint_id s_ready) ''abc123''
                (((world_first_fails t_0300)
        \<lparr>reads := 1,
         sent := [Post_restart ''http://p/api/endpoints/1/docker/containers/abc123/restart''
                    [(''X-API-Key'', ''k'')],
                  Get_containers ''http://p/api/endpoints/1/docker/containers/json?all=1''
                    [(''X-API-Key'', ''k'')]]\<rparr>)\<lparr>reads := Suc (reads ((world_first_fails t_0300)
        \<lparr>reads := 1,
         sent := [Post_restart ''http://p/api/endpoints/1/docker/containers/abc123/restart''
                    [(''X-API-Key'', ''k'')],
                  Get_containers ''http://p/api/endpoints/1/docker/containers/json?all=1''
                    [(''X-API-Key'', ''k'')]]\<rparr>))\<rparr>) of
           (Inl e', a3, w3) \<Rightarrow>
             (Inl e', s_ready\<lparr>api := a3, container_id := Some ''abc123''\<rparr>, w3)
         | (Inr x, a3, w3) \<Rightarrow>
             (Inr (),
              s_ready\<lparr>api := a3, container_id := Some ''abc123'',
                 last_restart_date := Some (dt_date (clock w3 (reads w3)))\<rparr>,
              w3\<lparr>reads := Suc (reads w3)\<rparr>))"
    by blast
  then have 3: "try_block s_resolving
     ((world_first_fails t_0300)
        \<lparr>reads := 1,
         sent := [Post_restart ''http://p/api/endpoints/1/docker/containers/abc123/restart''
                    [(''X-API-Key'', ''k'')]]\<rparr>) =
     (Inr (), s_ready\<lparr>last_restart_date := Some 738000\<rparr>,
      ((world_first_fails t_0300)
        \<lparr>reads := 3,
         sent := [Post_restart ''http://p/api/endpoints/1/docker/containers/abc123/restart''
                    [(''X-API-Key'', ''k'')],
                  Get_containers ''http://p/api/endpoints/1/docker/containers/json?all=1''
                    [(''X-API-Key'', ''k'')],
                  Post_restart ''http://p/api/endpoints/1/docker/containers/abc123/restart''
                    [(''X-API-Key'', ''k'')]]\<rparr>))"
    unfolding restart_container_second r using c i by (simp add: c2)
  from p resolve_ready c l l' e 1 3 show ?thesis by simp
qed

section \<open>How the process ends\<close>

lemma tick_leaves:
  "tick s w = (Some e, s1, w1) \<Longrightarrow> e = KeyboardInterrupt"
  by (auto simp: tick_def is_Exception_def split: prod.splits sum.splits if_splits)

lemma tick_check_interval:
  assumes "tick s w = (r, s1, w1)"
  shows "check_interval s1 = check_interval s"
proof -
  obtain rr s0 w0 where rs: "resolve s w = (rr, s0, w0)" by (cases "resolve s w")
  note f = resolve_frame [OF rs]
  show ?thesis
  proof (cases rr)
    case (Inl e)
    with rs have "try_block s w = (Inl e, s0, w0)" by (simp add: try_block_def)
    with assms f show ?thesis by (auto simp: tick_def split: if_splits)
  next
    case (Inr u)
    obtain rc sc wc where c: "check_and_restart s0 w0 = (rc, sc, wc)"
      by (cases "check_and_restart s0 w0")
    from rs Inr c have "try_block s w = (rc, sc, wc)" by (simp add: try_block_def)
    with assms f check_and_restart_frame [OF c] show ?thesis
      by (cases rc) (auto simp: tick_def split: if_splits)
  qed
qed

lemma loop_leaves:
  "loop n s w = (Some e, s1, w1) \<Longrightarrow>
   e = KeyboardInterrupt \<or> e = SleepValueError \<and> check_interval s < 0"
proof (induction n arbitrary: s w)
  case 0
  then show ?case by simp
next
  case (Suc n)
  obtain rt st wt where t: "tick s w = (rt, st, wt)" by (cases "tick s w")
  note ci = tick_check_interval [OF t]
  show ?case
  proof (cases rt)
    case (Some x)
    with Suc.prems t tick_leaves [of s w x st wt] show ?thesis by simp
  next
    case None
    obtain rs ws where sl: "sleep (check_interval st) wt = (rs, ws)"
      by (cases "sleep (check_interval st) wt")
    show ?thesis
    proof (cases rs)
      case (Inl x)
      with Suc.prems t None sl have "e = x" by simp
      with sl Inl ci show ?thesis by (auto simp: sleep_def split: if_splits)
    next
      case (Inr u)
      with Suc.prems t None sl have "loop n st ws = (Some e, s1, w1)" by simp
      from Suc.IH [OF this] ci show ?thesis by simp
    qed
  qed
qed

lemma startup_leaves:
  "startup s w = (r, s1, w1) \<Longrightarrow>
   check_interval s1 = check_interval s \<and> (\<forall>e. r = Some e \<longrightarrow> e = KeyboardInterrupt)"
  by (auto simp: startup_def is_Exception_def split: prod.splits sum.splits if_splits)

lemma run_leaves:
  assumes "run n s w = (Some e, s1, w1)"
  shows "e = KeyboardInterrupt \<or> e = SleepValueError \<and> check_interval s < 0"
proof -
  obtain r0 s0 w0 where st: "startup s w = (r0, s0, w0)" by (cases "startup s w")
  note f = startup_leaves [OF st]
  show ?thesis
  proof (cases r0)
    case None
    with assms st have "loop n s0 w0 = (Some e, s1, w1)" by (simp add: run_def)
    from loop_leaves [OF this] f show ?thesis by simp
  next
    case (Some x)
    with assms st f show ?thesis by (simp add: run_def)
  qed
qed

text \<open>
  After a construction that succeeded with a check interval that is not negative, the
  process ends only by a keyboard interrupt, with code 0.
\<close>

lemma main_exits:
  assumes "ContainerRestarter env = Inr s" and "0 \<le> check_interval s"
      and "main n env w = (Some c, w1)"
  shows "c = 0"
proof -
  from assms(1,3) obtain e s1 where r: "run n s w = (Some e, s1, w1)" and c: "c = exit_code e"
    by (auto simp: main_def split: prod.splits option.splits)
  from run_leaves [OF r] assms(2) have "e = KeyboardInterrupt" by simp
  with c show ?thesis by (simp add: exit_code_def)
qed

lemma py_int_minus_1: "py_int ''-1'' = Some (- 1)"
  by (simp add: py_int_def strip_def is_space_def parse_nat_def is_digit_def digit_val_def)

lemma ContainerRestarter_negative_interval:
  "ContainerRestarter env_negative_interval = Inr (s_resolving\<lparr>check_interval := - 1\<rparr>)"
  by (simp add: ContainerRestarter_def env_negative_interval_def getenv_default_def getenv_def
      py_int_minus_1 Let_def validate_config_def truthy_def strptime_0300 config.extend_def
      container_restarter.fields_def s_resolving_def s_ready_def)

text \<open>
  Claim C4, at \<^verbatim>\<open>CHECK_INTERVAL=-1\<close>. Construction succeeds, since the validation does not
  look at the check interval; the lookup at startup and the first pass of the loop end
  without error; then \<^verbatim>\<open>time.sleep(-1)\<close>, which stands outside the \<^verbatim>\<open>try\<close>, raises
  \<^verbatim>\<open>ValueError\<close>, and the process exits with code 1, after the listing and one restart
  request, however many passes it is given; the world \<open>world_ok\<close> never interrupts.
\<close>

theorem negative_interval_exits:
  "ContainerRestarter env_negative_interval = Inr (s_resolving\<lparr>check_interval := - 1\<rparr>) \<and>
   startup (s_resolving\<lparr>check_interval := - 1\<rparr>) (world_ok t_0300) =
     (None, s_ready\<lparr>check_interval := - 1\<rparr>,
      (world_ok t_0300)
        \<lparr>sent := [Get_containers ''http://p/api/endpoints/1/docker/containers/json?all=1''
                    [(''X-API-Key'', ''k'')]]\<rparr>) \<and>
   main (Suc n) env_negative_interval (world_ok t_0300) =
     (Some 1,
      (world_ok t_0300)
        \<lparr>reads := 2,
         sent := [Get_containers ''http://p/api/endpoints/1/docker/containers/json?all=1''
                    [(''X-API-Key'', ''k'')],
                  Post_restart ''http://p/api/endpoints/1/docker/containers/abc123/restart''
                    [(''X-API-Key'', ''k'')]]\<rparr>)"
proof -
  have s: "startup (s_resolving\<lparr>check_interval := - 1\<rparr>) (world_ok t_0300) =
     (None, s_ready\<lparr>check_interval := - 1\<rparr>,
      (world_ok t_0300)
        \<lparr>sent := [Get_containers ''http://p/api/endpoints/1/docker/containers/json?all=1''
                    [(''X-API-Key'', ''k'')]]\<rparr>)"
    by (simp add: startup_def pass_defs example_defs)
  have t: "tick (s_ready\<lparr>check_interval := - 1\<rparr>)
      ((world_ok t_0300)
        \<lparr>sent := [Get_containers ''http://p/api/endpoints/1/docker/containers/json?all=1''
                    [(''X-API-Key'', ''k'')]]\<rparr>) =
     (None, s_ready\<lparr>check_interval := - 1, last_restart_date := Some 738000\<rparr>,
      (world_ok t_0300)
        \<lparr>reads := 2,
         sent := [Get_containers ''http://p/api/endpoints/1/docker/containers/json?all=1''
                    [(''X-API-Key'', ''k'')],
                  Post_restart ''http://p/api/endpoints/1/docker/containers/abc123/restart''
                    [(''X-API-Key'', ''k'')]]\<rparr>)"
    by (simp add: pass_defs example_defs strptime_0300 dt_t_0300 dt_1900_3_0)
  have l: "loop (Suc n) (s_ready\<lparr>check_interval := - 1\<rparr>)
      ((world_ok t_0300)
        \<lparr>sent := [Get_containers ''http://p/api/endpoints/1/docker/containers/json?all=1''
                    [(''X-API-Key'', ''k'')]]\<rparr>) =
     (Some SleepValueError,
      s_ready\<lparr>check_interval := - 1, last_restart_date := Some 738000\<rparr>,
      (world_ok t_0300)
        \<lparr>reads := 2,
         sent := [Get_containers ''http://p/api/endpoints/1/docker/containers/json?all=1''
                    [(''X-API-Key'', ''k'')],
                  Post_restart ''http://p/api/endpoints/1/docker/containers/abc123/restart''
                    [(''X-API-Key'', ''k'')]]\<rparr>)"
    unfolding loop.simps t by (simp add: sleep_def)
  have m: "main (Suc n) env_negative_interval (world_ok t_0300) =
     (Some 1,
      (world_ok t_0300)
        \<lparr>reads := 2,
         sent := [Get_containers ''http://p/api/endpoints/1/docker/containers/json?all=1''
                    [(''X-API-Key'', ''k'')],
                  Post_restart ''http://p/api/endpoints/1/docker/containers/abc123/restart''
                    [(''X-API-Key'', ''k'')]]\<rparr>)"
    by (simp add: main_def ContainerRestarter_negative_interval run_def s l exit_code_def
        del: loop.simps)
  from ContainerRestarter_negative_interval s m show ?thesis by simp
qed

end
